theory Spec2Isabelle
  imports Main "HOL-Library.Char_ord" "HOL-Library.List_Lexorder" "HOL-Library.Multiset"
begin

section \<open>JSON values and the JavaScript operations the handlers use\<close>

text \<open>
  \<^verbatim>\<open>src/workers/worker.js\<close> holds two listings of the worker.

  The first (lines 1-451) is the worker the README and the deployment guide describe: the
  secrets are posted as the top-level body, an initialization flag makes the setup
  one-time, a checkout answers with a \<^verbatim>\<open>delivery_url\<close>. Its functions carry the suffix \<open>1\<close>
  here.

  The second (lines 452-658) does not start. Its first statement, line 455, is
  \<^verbatim>\<open>const ADMIN_HANDLE = typeof ADMIN_HANDLE !== "undefined" ? ADMIN_HANDLE : "Keli"\<close>: the
  name on the right is the constant being declared, which is read before it has a value,
  and that read throws a \<^verbatim>\<open>ReferenceError\<close> (\<^verbatim>\<open>typeof\<close> guards an undeclared name, not a
  declared one that is not yet initialised). The script ends there; line 490, which
  registers the \<^verbatim>\<open>fetch\<close> listener, is never reached, so no handler of that listing
  answers a request. The operations of the worker are therefore those of the first
  listing, and they are what is modelled.

  A request body is a JSON value. A string is the list of its characters, so
  \<^verbatim>\<open>s.substring(0, n)\<close> is \<open>take n s\<close>. Numbers are modelled by integers, rendered in
  decimal as JavaScript renders an integer that a double holds exactly; the statements
  below about stored values are about strings. An object is the list of its properties in
  property order, each key once (as \<^verbatim>\<open>JSON.parse\<close> builds it).
\<close>

datatype json =
    JNull
  | JBool bool
  | JNum int
  | JStr string
  | JArr "json list"
  | JObj "(string \<times> json) list"

text \<open>\<^verbatim>\<open>!!v\<close>: the values JavaScript treats as true.\<close>

fun truthy :: "json \<Rightarrow> bool" where
  "truthy JNull = False"
| "truthy (JBool b) = b"
| "truthy (JNum n) = (n \<noteq> 0)"
| "truthy (JStr s) = (s \<noteq> [])"
| "truthy (JArr xs) = True"
| "truthy (JObj kvs) = True"

text \<open>
  \<^verbatim>\<open>v.k\<close> for the property names the handlers read (\<^verbatim>\<open>sku\<close>, \<^verbatim>\<open>token\<close>, \<^verbatim>\<open>provider\<close>,
  \<^verbatim>\<open>timestamp\<close>, ...): only an object has them; on a string, number, boolean or array the
  read gives \<^verbatim>\<open>undefined\<close>, here \<open>None\<close>. Reading a property of \<^verbatim>\<open>null\<close> throws; the handlers
  that can meet \<^verbatim>\<open>null\<close> are modelled with the throw.
\<close>

definition field :: "json \<Rightarrow> string \<Rightarrow> json option" where
  "field v k = (case v of JObj kvs \<Rightarrow> map_of kvs k | _ \<Rightarrow> None)"

text \<open>Truthiness of a value that may be \<^verbatim>\<open>undefined\<close>, and of a string that may be \<^verbatim>\<open>null\<close>.\<close>

definition truthy_opt :: "json option \<Rightarrow> bool" where
  "truthy_opt v = (case v of None \<Rightarrow> False | Some j \<Rightarrow> truthy j)"

definition truthy_str :: "string option \<Rightarrow> bool" where
  "truthy_str s = (case s of None \<Rightarrow> False | Some t \<Rightarrow> t \<noteq> [])"

text \<open>Decimal rendering of an index or a number.\<close>

definition digit :: "nat \<Rightarrow> char" where
  "digit d = char_of (48 + d)"

fun dec :: "nat \<Rightarrow> string" where
  "dec n = (if n < 10 then [digit n] else dec (n div 10) @ [digit (n mod 10)])"

declare dec.simps [simp del]

definition dec_int :: "int \<Rightarrow> string" where
  "dec_int i = (if i < 0 then CHR ''-'' # dec (nat (- i)) else dec (nat i))"

fun join_comma :: "string list \<Rightarrow> string" where
  "join_comma [] = []"
| "join_comma [s] = s"
| "join_comma (s # t # r) = s @ '','' @ join_comma (t # r)"

text \<open>
  \<^verbatim>\<open>String(v)\<close>. An array joins its elements with commas, \<^verbatim>\<open>null\<close> elements as the empty
  string; an object is \<^verbatim>\<open>[object Object]\<close>.
\<close>

fun js_String :: "json \<Rightarrow> string" where
  "js_String JNull = ''null''"
| "js_String (JBool b) = (if b then ''true'' else ''false'')"
| "js_String (JNum n) = dec_int n"
| "js_String (JStr s) = s"
| "js_String (JArr xs) = join_comma (map (\<lambda>x. if x = JNull then [] else js_String x) xs)"
| "js_String (JObj kvs) = ''[object Object]''"

text \<open>
  The own enumerable properties of a value, as \<^verbatim>\<open>Object.entries\<close> and the object spread
  read them: an object's properties, an array's elements and a string's characters under
  their indices, nothing for a number or a boolean.
\<close>

definition indexed :: "'a list \<Rightarrow> (string \<times> 'a) list" where
  "indexed xs = zip (map dec [0 ..< length xs]) xs"

fun own_props :: "json \<Rightarrow> (string \<times> json) list" where
  "own_props (JObj kvs) = kvs"
| "own_props (JArr xs) = indexed xs"
| "own_props (JStr s) = indexed (map (\<lambda>c. JStr [c]) s)"
| "own_props JNull = []"
| "own_props (JBool b) = []"
| "own_props (JNum n) = []"

text \<open>
  \<^verbatim>\<open>toUpperCase\<close> on a text of ASCII characters. The worker applies it to the first twelve
  characters of \<^verbatim>\<open>crypto.randomUUID()\<close>, which are hexadecimal digits and a hyphen.
\<close>

definition upper_char :: "char \<Rightarrow> char" where
  "upper_char c = (if CHR ''a'' \<le> c \<and> c \<le> CHR ''z'' then char_of (of_char c - (32::nat)) else c)"

definition toUpperCase :: "string \<Rightarrow> string" where
  "toUpperCase s = map upper_char s"

section \<open>The key-value namespaces\<close>

text \<open>
  A namespace is an association list with one entry per key. \<open>kv_put\<close> overwrites the
  entry of a key in place or adds one at the end.
\<close>

type_synonym 'v kv = "(string \<times> 'v) list"

fun kv_put :: "string \<Rightarrow> 'v \<Rightarrow> 'v kv \<Rightarrow> 'v kv" where
  "kv_put k v [] = [(k, v)]"
| "kv_put k v ((k', v') # r) = (if k = k' then (k, v) # r else (k', v') # kv_put k v r)"

definition kv_get :: "'v kv \<Rightarrow> string \<Rightarrow> 'v option" where
  "kv_get s k = map_of s k"

definition starts_with :: "string \<Rightarrow> string \<Rightarrow> bool" where
  "starts_with p s = (take (length p) s = p)"

text \<open>
  \<^verbatim>\<open>list({prefix, limit})\<close>: the keys under the prefix in lexicographic order, the first
  \<open>limit\<close> of them.
\<close>

definition kv_list :: "string \<Rightarrow> nat \<Rightarrow> 'v kv \<Rightarrow> string list" where
  "kv_list p limit s = take limit (sort (remdups (filter (starts_with p) (map fst s))))"

text \<open>
  The secrets namespace holds texts. A text written as \<^verbatim>\<open>JSON.stringify(obj)\<close> is kept as
  \<open>Doc obj\<close>; any other text as \<open>Text s\<close>. The sessions and audit namespaces are written
  only through \<^verbatim>\<open>JSON.stringify\<close> and read only through \<^verbatim>\<open>JSON.parse\<close>, which gives the
  written document back: they hold the documents themselves.
\<close>

datatype kvval = Text string | Doc json

text \<open>
  Expiry. The state records of the OAuth handshake are written with
  \<^verbatim>\<open>{ expirationTtl: 600 }\<close> and a callback depends on whether its record has expired:
  the sessions namespace keeps with each document the time, in seconds, from which the
  store no longer returns it, and a read is made at the time of the request. The
  time-to-live of the other writes (30 days for inbound messages, 90 days for delivery
  records, a year for audit entries) is not modelled: in the secrets and audit namespaces
  an expired entry is an absent entry.
\<close>

definition kv_get_live :: "nat \<Rightarrow> ('v \<times> nat) kv \<Rightarrow> string \<Rightarrow> 'v option" where
  "kv_get_live now s k =
     (case kv_get s k of
        None \<Rightarrow> None
      | Some (v, expires) \<Rightarrow> if now < expires then Some v else None)"

section \<open>Outcomes\<close>

text \<open>
  What a handler throws: \<^verbatim>\<open>TypeError\<close> (a property of \<^verbatim>\<open>null\<close>), \<^verbatim>\<open>SyntaxError\<close> (a body
  that is not JSON), or the error of a write the store refuses.
\<close>

datatype exn = TypeError | SyntaxError | WriteFailed

text \<open>A response: a JSON body with its status, or a stored text returned as it is.\<close>

datatype response =
    JsonResp nat json
  | RawResp nat kvval

datatype result = Throws exn | Returns response

section \<open>What the platform supplies\<close>

text \<open>
  The language's pure built-ins that are not spelled out here: the text of a document,
  the parse of a text (\<open>None\<close> when \<^verbatim>\<open>JSON.parse\<close> throws) and the time value of
  \<^verbatim>\<open>new Date(v)\<close> in milliseconds (\<open>None\<close> for an invalid date; the argument is \<open>None\<close> for
  \<^verbatim>\<open>undefined\<close>).
\<close>

record builtins =
  JSON_stringify :: "json \<Rightarrow> string"
  JSON_parse :: "string \<Rightarrow> json option"
  Date_value :: "json option \<Rightarrow> int option"

text \<open>
  What one request reads from its surroundings: \<^verbatim>\<open>new Date().toISOString()\<close> and
  \<^verbatim>\<open>crypto.randomUUID()\<close> by call site in source order, and the store's clock in seconds.
  \<open>write_refused k v\<close> says that the secrets namespace refuses the write of \<open>v\<close> under \<open>k\<close>
  during this request (the \<^verbatim>\<open>put\<close> throws). On the platform that is the case for a key
  of more than 512 bytes and for a value that is not a text, such as an object or an
  array. It is consulted where a handler writes a key or a value the caller chooses into
  the secrets namespace: \<^verbatim>\<open>handleStoreSecrets\<close>, \<^verbatim>\<open>handleOAuthCallback\<close> and
  \<^verbatim>\<open>handleStoreToken\<close>. The other writes, of texts the handler builds under keys of a
  fixed length, succeed.
\<close>

record ambient =
  clock_iso :: "nat \<Rightarrow> string"
  clock_seconds :: nat
  random_uuid :: "nat \<Rightarrow> string"
  write_refused :: "string \<Rightarrow> json \<Rightarrow> bool"

section \<open>The first listing (lines 1-451)\<close>

text \<open>
  This listing reads its bindings without a guard: the setup credential and the three
  namespaces are bound.
\<close>

record world1 =
  SETUP_TOKEN1 :: string
  SECRETS1 :: "kvval kv"
  SESSIONS1 :: "(json \<times> nat) kv"
  AUDIT1 :: "json kv"

definition json_error1 :: "string \<Rightarrow> nat \<Rightarrow> response" where
  "json_error1 msg status = JsonResp status (JObj [(''error'', JStr msg)])"

definition kv_text :: "builtins \<Rightarrow> kvval \<Rightarrow> string" where
  "kv_text js v = (case v of Text s \<Rightarrow> s | Doc j \<Rightarrow> JSON_stringify js j)"

text \<open>
  \<^verbatim>\<open>logAudit(action, details, admin)\<close> (lines 441-451); \<open>iu\<close> and \<open>it\<close> are the call sites
  of \<^verbatim>\<open>crypto.randomUUID()\<close> and of the clock. The \<^verbatim>\<open>admin\<close> argument is never read.
\<close>

definition logAudit1 :: "ambient \<Rightarrow> nat \<Rightarrow> nat \<Rightarrow> string \<Rightarrow> string \<Rightarrow> world1 \<Rightarrow> world1" where
  "logAudit1 amb iu it action details w =
     w\<lparr>AUDIT1 := kv_put (''audit_'' @ random_uuid amb iu)
                    (JObj [(''admin'', JStr ''Keli''), (''action'', JStr action),
                           (''details'', JStr details), (''timestamp'', JStr (clock_iso amb it))])
                    (AUDIT1 w)\<rparr>"

subsection \<open>handleStoreSecrets (lines 94-134)\<close>

text \<open>
  The loop \<^verbatim>\<open>for (const [key, value] of Object.entries(secrets))\<close> with its writes
  \<^verbatim>\<open>SECRETS_KV.put(`secret_${key}`, value)\<close>. A refused write throws and ends the loop;
  the result says whether the loop ran to its end and gives the namespace as it is then.
  A value that is not a string is kept as its string conversion when the store accepts it.
\<close>

fun store_each1 :: "(string \<Rightarrow> json \<Rightarrow> bool) \<Rightarrow> (string \<times> json) list \<Rightarrow> kvval kv \<Rightarrow> bool \<times> kvval kv" where
  "store_each1 refused [] s = (True, s)"
| "store_each1 refused ((k, v) # r) s =
     (if refused (''secret_'' @ k) v then (False, s)
      else store_each1 refused r (kv_put (''secret_'' @ k) (Text (js_String v)) s))"

text \<open>
  The arguments are the \<^verbatim>\<open>x-setup-token\<close> header and the body as \<^verbatim>\<open>request.json()\<close> reads
  it. \<^verbatim>\<open>Object.entries(null)\<close> throws.
\<close>

definition handleStoreSecrets1 ::
  "builtins \<Rightarrow> ambient \<Rightarrow> world1 \<Rightarrow> string option \<Rightarrow> json option \<Rightarrow> result \<times> world1" where
  "handleStoreSecrets1 js amb w setupToken body =
     (if \<not> truthy_str setupToken \<or> the setupToken \<noteq> SETUP_TOKEN1 w
        then (Returns (json_error1 ''Invalid setup token'' 403), w)
      else if map_option (kv_text js) (kv_get (SECRETS1 w) ''secrets_initialized'') = Some ''true''
        then (Returns (json_error1 ''Secrets already initialized'' 403), w)
      else case body of
        None \<Rightarrow> (Throws SyntaxError, w)
      | Some JNull \<Rightarrow> (Throws TypeError, w)
      | Some secrets \<Rightarrow>
          (case store_each1 (write_refused amb) (own_props secrets) (SECRETS1 w) of
             (False, s) \<Rightarrow> (Throws WriteFailed, w\<lparr>SECRETS1 := s\<rparr>)
           | (True, s) \<Rightarrow>
               if write_refused amb ''secrets_initialized'' (JStr ''true'')
               then (Throws WriteFailed, w\<lparr>SECRETS1 := s\<rparr>)
               else
                 let w1 = w\<lparr>SECRETS1 := kv_put ''secrets_initialized'' (Text ''true'') s\<rparr>;
                     w2 = logAudit1 amb 0 0 ''secrets_stored'' ''System secrets initialized'' w1
                 in (Returns (JsonResp 200 (JObj [(''success'', JBool True),
                                                  (''message'', JStr ''Secrets stored successfully'')])), w2)))"

subsection \<open>The OAuth handshake (lines 140-222)\<close>

text \<open>
  \<^verbatim>\<open>oauthUrls[provider] || '#'\<close> as the response shows it. The three providers have their
  URL; a name that \<^verbatim>\<open>Object.prototype\<close> defines as a function reads that function, which
  \<^verbatim>\<open>JSON.stringify\<close> leaves out of the body (\<open>None\<close>); \<^verbatim>\<open>__proto__\<close> reads the prototype,
  an object without own properties; any other name gives \<^verbatim>\<open>#\<close>.
\<close>

definition prototype_functions :: "string list" where
  "prototype_functions =
     [''constructor'', ''hasOwnProperty'', ''isPrototypeOf'', ''propertyIsEnumerable'',
      ''toLocaleString'', ''toString'', ''valueOf'', ''__defineGetter__'', ''__defineSetter__'',
      ''__lookupGetter__'', ''__lookupSetter__'']"

definition auth_url1 :: "string \<Rightarrow> string \<Rightarrow> json option" where
  "auth_url1 provider sessionId =
     (if provider = ''stripe'' then
        Some (JStr (''https://connect.stripe.com/oauth/authorize?response_type=code&client_id=CLIENT_ID&scope=read_write&state='' @ sessionId))
      else if provider = ''protonmail'' then
        Some (JStr (''https://account.proton.me/authorize?client_id=CLIENT_ID&state='' @ sessionId))
      else if provider = ''youtube'' then
        Some (JStr (''https://accounts.google.com/o/oauth2/v2/auth?client_id=CLIENT_ID&redirect_uri=REDIRECT_URI&response_type=code&scope=https://www.googleapis.com/auth/youtube.readonly&state='' @ sessionId))
      else if provider = ''__proto__'' then Some (JObj [])
      else if provider \<in> set prototype_functions then None
      else Some (JStr ''#''))"

text \<open>
  \<^verbatim>\<open>handleOAuthInit\<close>: the state record is written with \<^verbatim>\<open>{ expirationTtl: 600 }\<close>, ten
  minutes from the time of the request.
\<close>

definition handleOAuthInit1 :: "ambient \<Rightarrow> world1 \<Rightarrow> string option \<Rightarrow> result \<times> world1" where
  "handleOAuthInit1 amb w provider_param =
     (if \<not> truthy_str provider_param then (Returns (json_error1 ''Provider required'' 400), w)
      else
        let provider = the provider_param;
            sessionId = random_uuid amb 0;
            w1 = w\<lparr>SESSIONS1 := kv_put (''session_'' @ sessionId)
                                  (JObj [(''provider'', JStr provider), (''created'', JStr (clock_iso amb 0)),
                                         (''admin'', JStr ''Keli'')],
                                   clock_seconds amb + 600)
                                  (SESSIONS1 w)\<rparr>;
            w2 = logAudit1 amb 1 1 ''oauth_init'' (''OAuth initiated for '' @ provider) w1
        in (Returns (JsonResp 200
                       (JObj ((case auth_url1 provider sessionId of
                                 None \<Rightarrow> [] | Some u \<Rightarrow> [(''auth_url'', u)])
                              @ [(''session_id'', JStr sessionId)]))), w2))"

text \<open>\<^verbatim>\<open>`${v}`\<close> for a property that may be missing.\<close>

definition template :: "json option \<Rightarrow> string" where
  "template v = (case v of None \<Rightarrow> ''undefined'' | Some j \<Rightarrow> js_String j)"

text \<open>
  \<^verbatim>\<open>handleOAuthCallback\<close>: no call to the provider; the token is
  \<^verbatim>\<open>`token_${code.substring(0, 10)}`\<close>, written under \<^verbatim>\<open>`oauth_token_${session.provider}`\<close>.
  \<^verbatim>\<open>session.provider\<close> throws on a stored \<^verbatim>\<open>null\<close>. The state record is only read.
\<close>

definition handleOAuthCallback1 ::
  "ambient \<Rightarrow> world1 \<Rightarrow> string option \<Rightarrow> string option \<Rightarrow> result \<times> world1" where
  "handleOAuthCallback1 amb w code state =
     (if \<not> truthy_str code \<or> \<not> truthy_str state
        then (Returns (json_error1 ''Invalid callback'' 400), w)
      else case kv_get_live (clock_seconds amb) (SESSIONS1 w) (''session_'' @ the state) of
        None \<Rightarrow> (Returns (json_error1 ''Session expired'' 403), w)
      | Some JNull \<Rightarrow> (Throws TypeError, w)
      | Some session \<Rightarrow>
          let provider = template (field session ''provider'');
              token = ''token_'' @ take 10 (the code)
          in if write_refused amb (''oauth_token_'' @ provider) (JStr token) then (Throws WriteFailed, w)
             else
               let w1 = w\<lparr>SECRETS1 := kv_put (''oauth_token_'' @ provider) (Text token) (SECRETS1 w)\<rparr>;
                   w2 = logAudit1 amb 0 0 ''oauth_complete'' (''OAuth completed for '' @ provider) w1
               in (Returns (JsonResp 200 (JObj [(''success'', JBool True),
                                                (''message'', JStr ''OAuth completed successfully'')])), w2))"

subsection \<open>Inbound email, checkout, delivery, manual token (lines 228-337, 418-435)\<close>

text \<open>
  The object spread \<^verbatim>\<open>{...email, received}\<close> on property lists: each property overwrites
  the one of its name in place or is added at the end.
\<close>

definition object_assign :: "(string \<times> json) list \<Rightarrow> (string \<times> json) list \<Rightarrow> (string \<times> json) list" where
  "object_assign target src = foldl (\<lambda>t (k, v). kv_put k v t) target src"

text \<open>\<^verbatim>\<open>email.from\<close> throws on a \<^verbatim>\<open>null\<close> body, after the message is stored.\<close>

definition handleInboundEmail1 :: "ambient \<Rightarrow> world1 \<Rightarrow> json option \<Rightarrow> result \<times> world1" where
  "handleInboundEmail1 amb w body =
     (case body of
        None \<Rightarrow> (Throws SyntaxError, w)
      | Some email \<Rightarrow>
          let emailId = random_uuid amb 0;
              stored = JObj (object_assign (object_assign [] (own_props email))
                               [(''received'', JStr (clock_iso amb 0))]);
              w1 = w\<lparr>SECRETS1 := kv_put (''email_'' @ emailId) (Doc stored) (SECRETS1 w)\<rparr>
          in if email = JNull then (Throws TypeError, w1)
             else
               let w2 = logAudit1 amb 1 1 ''email_received''
                          (''Email from '' @ template (field email ''from'')) w1
               in (Returns (JsonResp 200 (JObj [(''success'', JBool True),
                                                (''email_id'', JStr emailId)])), w2))"

text \<open>
  \<^verbatim>\<open>handleCreateCheckout\<close>: \<^verbatim>\<open>isPresold\<close> is the constant \<^verbatim>\<open>true\<close>, so only the
  auto-delivery branch runs. Destructuring a \<^verbatim>\<open>null\<close> body throws. The delivery record is
  written under the delivery token; the answer carries the URL made of the token.
\<close>

definition handleCreateCheckout1 :: "ambient \<Rightarrow> world1 \<Rightarrow> json option \<Rightarrow> result \<times> world1" where
  "handleCreateCheckout1 amb w body =
     (case body of
        None \<Rightarrow> (Throws SyntaxError, w)
      | Some JNull \<Rightarrow> (Throws TypeError, w)
      | Some b \<Rightarrow>
          let product_id = field b ''product_id'';
              sku = field b ''sku'';
              buyer_email = field b ''buyer_email''
          in if \<not> truthy_opt product_id \<or> \<not> truthy_opt sku \<or> \<not> truthy_opt buyer_email
             then (Returns (json_error1 ''Missing required fields'' 400), w)
             else
               let deliveryToken = toUpperCase (take 12 (random_uuid amb 0));
                   deliveryUrl = ''https://proton.me/s/'' @ deliveryToken;
                   w1 = w\<lparr>SECRETS1 := kv_put (''delivery_'' @ deliveryToken)
                            (Doc (JObj [(''product_id'', the product_id), (''sku'', the sku),
                                        (''buyer_email'', the buyer_email),
                                        (''delivered'', JStr (clock_iso amb 0)), (''admin'', JStr ''Keli'')]))
                            (SECRETS1 w)\<rparr>;
                   w2 = logAudit1 amb 1 1 ''auto_delivery''
                          (''Auto-delivered '' @ template sku @ '' to '' @ template buyer_email) w1
               in (Returns (JsonResp 200
                     (JObj [(''presold_delivery'', JBool True), (''delivery_url'', JStr deliveryUrl),
                            (''message'', JStr ''Package auto-delivered. Check your email for access details.'')])),
                   w2))"

text \<open>
  \<^verbatim>\<open>!text\<close> for a stored text: the empty text. The text of a document is never empty.
\<close>

definition empty_text :: "kvval \<Rightarrow> bool" where
  "empty_text v = (case v of Text s \<Rightarrow> s = [] | Doc j \<Rightarrow> False)"

text \<open>
  \<^verbatim>\<open>handleDeliver\<close>: the stored text under \<^verbatim>\<open>delivery_<token>\<close> is the body of the answer,
  as it is; an absent or empty text is answered 404.
\<close>

definition handleDeliver1 :: "ambient \<Rightarrow> world1 \<Rightarrow> string option \<Rightarrow> result \<times> world1" where
  "handleDeliver1 amb w token =
     (if \<not> truthy_str token then (Returns (json_error1 ''Token required'' 400), w)
      else case kv_get (SECRETS1 w) (''delivery_'' @ the token) of
        None \<Rightarrow> (Returns (json_error1 ''Delivery not found'' 404), w)
      | Some delivery \<Rightarrow>
          if empty_text delivery then (Returns (json_error1 ''Delivery not found'' 404), w)
          else
            let w1 = logAudit1 amb 0 0 ''delivery_accessed'' (''Delivery '' @ the token @ '' accessed'') w
            in (Returns (RawResp 200 delivery), w1))"

text \<open>
  \<^verbatim>\<open>handleStoreToken\<close>: the token is any truthy JSON value, given to \<^verbatim>\<open>put\<close> as it is.
  \<^verbatim>\<open>put\<close> takes a text and converts a number or a boolean to one; given an object or an
  array it throws a \<^verbatim>\<open>TypeError\<close> and stores nothing.
\<close>

definition not_a_text :: "json \<Rightarrow> bool" where
  "not_a_text v = (case v of JObj kvs \<Rightarrow> True | JArr xs \<Rightarrow> True | _ \<Rightarrow> False)"

definition handleStoreToken1 :: "ambient \<Rightarrow> world1 \<Rightarrow> json option \<Rightarrow> result \<times> world1" where
  "handleStoreToken1 amb w body =
     (case body of
        None \<Rightarrow> (Throws SyntaxError, w)
      | Some JNull \<Rightarrow> (Throws TypeError, w)
      | Some b \<Rightarrow>
          if \<not> truthy_opt (field b ''token'') then (Returns (json_error1 ''Token required'' 400), w)
          else if not_a_text (the (field b ''token'')) then (Throws TypeError, w)
          else if write_refused amb ''manual_token'' (the (field b ''token'')) then (Throws WriteFailed, w)
          else
            let w1 = w\<lparr>SECRETS1 := kv_put ''manual_token'' (Text (js_String (the (field b ''token''))))
                                     (SECRETS1 w)\<rparr>;
                w2 = logAudit1 amb 0 0 ''token_stored'' ''Manual token stored'' w1
            in (Returns (JsonResp 200 (JObj [(''success'', JBool True)])), w2))"

subsection \<open>The audit log (lines 343-388)\<close>

text \<open>\<^verbatim>\<open>v || d\<close> for a property that may be missing.\<close>

definition or_else :: "json option \<Rightarrow> json \<Rightarrow> json" where
  "or_else v d = (if truthy_opt v then the v else d)"

text \<open>
  \<^verbatim>\<open>obj.k = v\<close> as the stored document shows it: an object takes the property (in place
  when it has the key, at the end otherwise); an array takes it but \<^verbatim>\<open>JSON.stringify\<close>
  leaves a named property of an array out; on a string, number or boolean the assignment
  does nothing. Not used on \<^verbatim>\<open>null\<close>, where the assignment throws.
\<close>

fun set_prop :: "string \<Rightarrow> json \<Rightarrow> json \<Rightarrow> json" where
  "set_prop k v (JObj kvs) = JObj (kv_put k v kvs)"
| "set_prop k v j = j"

text \<open>
  \<^verbatim>\<open>handleAudit\<close>: \<^verbatim>\<open>entry.admin = 'Keli'\<close> throws on a \<^verbatim>\<open>null\<close> body. The stored document
  is \<^verbatim>\<open>JSON.stringify(entry)\<close>.
\<close>

definition audit_entry1 :: "ambient \<Rightarrow> json \<Rightarrow> json" where
  "audit_entry1 amb body =
     (let e1 = set_prop ''admin'' (JStr ''Keli'') body
      in set_prop ''timestamp'' (or_else (field e1 ''timestamp'') (JStr (clock_iso amb 0))) e1)"

definition handleAudit1 :: "ambient \<Rightarrow> world1 \<Rightarrow> json option \<Rightarrow> result \<times> world1" where
  "handleAudit1 amb w body =
     (case body of
        None \<Rightarrow> (Throws SyntaxError, w)
      | Some JNull \<Rightarrow> (Throws TypeError, w)
      | Some b \<Rightarrow>
          let auditId = random_uuid amb 0;
              w1 = w\<lparr>AUDIT1 := kv_put (''audit_'' @ auditId) (audit_entry1 amb b) (AUDIT1 w)\<rparr>
          in (Returns (JsonResp 200 (JObj [(''success'', JBool True), (''audit_id'', JStr auditId)])), w1))"

text \<open>
  \<^verbatim>\<open>logs.sort((a, b) => new Date(b.timestamp) - new Date(a.timestamp))\<close>: a stable sort,
  latest time first. With an invalid date the comparison is \<^verbatim>\<open>NaN\<close> and JavaScript leaves
  the order to the implementation; the model then places the entry as if at time 0, and
  the statements about the order are made for entries with valid dates.
  Reading \<^verbatim>\<open>timestamp\<close> of a stored \<^verbatim>\<open>null\<close> throws as soon as two entries are compared.
\<close>

definition time_of :: "builtins \<Rightarrow> string \<Rightarrow> json \<Rightarrow> int" where
  "time_of js k e = (case Date_value js (field e k) of None \<Rightarrow> 0 | Some t \<Rightarrow> t)"

definition newest_first :: "builtins \<Rightarrow> string \<Rightarrow> json list \<Rightarrow> json list" where
  "newest_first js k logs = sort_key (\<lambda>e. - time_of js k e) logs"

text \<open>
  \<^verbatim>\<open>handleGetAuditLogs\<close>: \<^verbatim>\<open>list({prefix})\<close> without a limit returns at most 1000 keys, and
  the handler reads no further page.
\<close>

definition handleGetAuditLogs1 :: "builtins \<Rightarrow> world1 \<Rightarrow> result \<times> world1" where
  "handleGetAuditLogs1 js w =
     (let logs = List.map_filter (kv_get (AUDIT1 w)) (kv_list ''audit_'' 1000 (AUDIT1 w))
      in if 2 \<le> length logs \<and> JNull \<in> set logs then (Throws TypeError, w)
         else (Returns (JsonResp 200 (JArr (newest_first js ''timestamp'' logs))), w))"

text \<open>\<^verbatim>\<open>handleGetMessages\<close> (lines 394-412): an empty text is skipped, any other is parsed.\<close>

fun parse_all :: "builtins \<Rightarrow> kvval list \<Rightarrow> json list option" where
  "parse_all js [] = Some []"
| "parse_all js (Doc j # r) = map_option ((#) j) (parse_all js r)"
| "parse_all js (Text t # r) =
     (if t = [] then parse_all js r
      else case JSON_parse js t of
             None \<Rightarrow> None
           | Some j \<Rightarrow> map_option ((#) j) (parse_all js r))"

definition handleGetMessages1 :: "builtins \<Rightarrow> world1 \<Rightarrow> result \<times> world1" where
  "handleGetMessages1 js w =
     (case parse_all js (List.map_filter (kv_get (SECRETS1 w)) (kv_list ''email_'' 1000 (SECRETS1 w))) of
        None \<Rightarrow> (Throws SyntaxError, w)
      | Some messages \<Rightarrow>
          if 2 \<le> length messages \<and> JNull \<in> set messages then (Throws TypeError, w)
          else (Returns (JsonResp 200 (JArr (newest_first js ''received'' messages))), w))"

subsection \<open>The router (lines 17-87)\<close>

text \<open>
  One constructor per route. The router returns the handlers' promises without awaiting
  them, so its \<^verbatim>\<open>catch\<close> does not see an error a handler throws: the error is the result.
\<close>

datatype request1 =
    StoreSecrets1 "string option" "json option"
  | OAuthInit1 "string option"
  | OAuthCallback1 "string option" "string option"
  | InboundEmail1 "json option"
  | CreateCheckout1 "json option"
  | Deliver1 "string option"
  | Audit1 "json option"
  | GetAuditLogs1
  | GetMessages1
  | StoreToken1 "json option"

fun step1 :: "builtins \<Rightarrow> ambient \<Rightarrow> world1 \<Rightarrow> request1 \<Rightarrow> result \<times> world1" where
  "step1 js amb w (StoreSecrets1 header body) = handleStoreSecrets1 js amb w header body"
| "step1 js amb w (OAuthInit1 provider) = handleOAuthInit1 amb w provider"
| "step1 js amb w (OAuthCallback1 code state) = handleOAuthCallback1 amb w code state"
| "step1 js amb w (InboundEmail1 body) = handleInboundEmail1 amb w body"
| "step1 js amb w (CreateCheckout1 body) = handleCreateCheckout1 amb w body"
| "step1 js amb w (Deliver1 token) = handleDeliver1 amb w token"
| "step1 js amb w (Audit1 body) = handleAudit1 amb w body"
| "step1 js amb w GetAuditLogs1 = handleGetAuditLogs1 js w"
| "step1 js amb w GetMessages1 = handleGetMessages1 js w"
| "step1 js amb w (StoreToken1 body) = handleStoreToken1 amb w body"

text \<open>A run of requests, each with what the platform supplies to it.\<close>

fun run1 :: "builtins \<Rightarrow> world1 \<Rightarrow> (ambient \<times> request1) list \<Rightarrow> world1" where
  "run1 js w [] = w"
| "run1 js w ((amb, r) # rest) = run1 js (snd (step1 js amb w r)) rest"

section \<open>Predicates of the statements\<close>

text \<open>The initialization flag holds the text \<^verbatim>\<open>true\<close>.\<close>

definition locked1 :: "world1 \<Rightarrow> bool" where
  "locked1 w = (kv_get (SECRETS1 w) ''secrets_initialized'' = Some (Text ''true''))"

text \<open>The request body of a secrets map: a JSON object whose values are strings.\<close>

definition secrets_body :: "(string \<times> string) list \<Rightarrow> json" where
  "secrets_body S = JObj (map (\<lambda>(k, s). (k, JStr s)) S)"





section \<open>Concrete inputs\<close>

text \<open>Stand-ins for the platform, and small worlds, for the closed instances below.\<close>

definition demo_js :: builtins where
  "demo_js = \<lparr>JSON_stringify = (\<lambda>j. ''json:'' @ js_String j),
              JSON_parse = (\<lambda>t. None),
              Date_value = (\<lambda>v. case v of Some (JNum n) \<Rightarrow> Some n | _ \<Rightarrow> None)\<rparr>"

definition demo_amb :: ambient where
  "demo_amb = \<lparr>clock_iso = (\<lambda>i. ''2026-01-01T00:00:00.000Z''),
               clock_seconds = 1767225600,
               random_uuid = (\<lambda>i. ''0f8fad5b-d9cb-469f-a165-70867728950e''),
               write_refused = (\<lambda>k v. False)\<rparr>"

definition demo_world1 :: world1 where
  "demo_world1 = \<lparr>SETUP_TOKEN1 = ''s3tup'', SECRETS1 = [], SESSIONS1 = [], AUDIT1 = []\<rparr>"

text \<open>
  A world with a state record issued for \<^verbatim>\<open>stripe\<close> at the time of \<open>demo_amb\<close>, and the
  platform ten minutes later, when the record has expired.
\<close>

definition demo_oauth_world1 :: world1 where
  "demo_oauth_world1 =
     demo_world1\<lparr>SESSIONS1 := [(''session_st-1'',
                                  (JObj [(''provider'', JStr ''stripe''),
                                         (''created'', JStr ''2026-01-01T00:00:00.000Z''),
                                         (''admin'', JStr ''Keli'')], 1767226200))]\<rparr>"

definition demo_amb_later :: ambient where
  "demo_amb_later = demo_amb\<lparr>clock_iso := (\<lambda>i. ''2026-01-01T00:10:00.000Z''), clock_seconds := 1767226200\<rparr>"

text \<open>A world whose initialization flag is set.\<close>

definition demo_locked_world1 :: world1 where
  "demo_locked_world1 = demo_world1\<lparr>SECRETS1 := [(''secrets_initialized'', Text ''true'')]\<rparr>"







text \<open>A platform whose store refuses a value that is an object or an array.\<close>

definition demo_amb_texts_only :: ambient where
  "demo_amb_texts_only = demo_amb\<lparr>write_refused := (\<lambda>k v. not_a_text v)\<rparr>"

section \<open>Shared lemmas\<close>

lemma kv_get_kv_put: "kv_get (kv_put k v s) k' = (if k' = k then Some v else kv_get s k')"
  by (induction s) (auto simp: kv_get_def)

subsection \<open>The secrets loop and the flag of the first listing\<close>

lemma secret_key_not_flag: "''secret_'' @ k \<noteq> ''secrets_initialized''"
  by simp

lemma store_each1_other:
  "key \<notin> (\<lambda>k. ''secret_'' @ k) ` fst ` set es \<Longrightarrow>
   kv_get (snd (store_each1 r es s)) key = kv_get s key"
  by (induction es arbitrary: s) (auto simp: kv_get_kv_put)


lemma store_each1_complete:
  "fst (store_each1 r es s) = (\<forall>(k, v) \<in> set es. \<not> r (''secret_'' @ k) v)"
  by (induction es arbitrary: s) (auto split: if_splits)

lemma store_each1_stored:
  "fst (store_each1 r es s) \<Longrightarrow> k \<in> fst ` set es \<Longrightarrow>
   \<exists>v'. (k, v') \<in> set es \<and> kv_get (snd (store_each1 r es s)) (''secret_'' @ k) = Some (Text (js_String v'))"
proof (induction es arbitrary: s)
  case Nil
  then show ?case by simp
next
  case (Cons e es)
  obtain k0 v0 where e: "e = (k0, v0)" by (cases e)
  from Cons.prems(1) e have ok: "\<not> r (''secret_'' @ k0) v0"
    and rest: "fst (store_each1 r es (kv_put (''secret_'' @ k0) (Text (js_String v0)) s))"
    by (auto split: if_splits)
  show ?case
  proof (cases "k \<in> fst ` set es")
    case True
    from Cons.IH [OF rest this] e ok show ?thesis by auto
  next
    case False
    with Cons.prems(2) e have k: "k = k0" by force
    from False have "''secret_'' @ k \<notin> (\<lambda>k. ''secret_'' @ k) ` fst ` set es" by auto
    from store_each1_other [OF this] e ok k show ?thesis
      by (auto simp: kv_get_kv_put)
  qed
qed

lemma handleStoreSecrets1_open:
  assumes "tok \<noteq> []" "SETUP_TOKEN1 w = tok"
    and "map_option (kv_text js) (kv_get (SECRETS1 w) ''secrets_initialized'') \<noteq> Some ''true''"
    and "secrets \<noteq> JNull"
  shows "handleStoreSecrets1 js amb w (Some tok) (Some secrets) =
     (case store_each1 (write_refused amb) (own_props secrets) (SECRETS1 w) of
             (False, s) \<Rightarrow> (Throws WriteFailed, w\<lparr>SECRETS1 := s\<rparr>)
           | (True, s) \<Rightarrow>
               if write_refused amb ''secrets_initialized'' (JStr ''true'')
               then (Throws WriteFailed, w\<lparr>SECRETS1 := s\<rparr>)
               else
                 let w1 = w\<lparr>SECRETS1 := kv_put ''secrets_initialized'' (Text ''true'') s\<rparr>;
                     w2 = logAudit1 amb 0 0 ''secrets_stored'' ''System secrets initialized'' w1
                 in (Returns (JsonResp 200 (JObj [(''success'', JBool True),
                                                  (''message'', JStr ''Secrets stored successfully'')])), w2))"
  using assms by (cases secrets) (auto simp: handleStoreSecrets1_def truthy_str_def)

lemma handleStoreSecrets1_locked:
  assumes "map_option (kv_text js) (kv_get (SECRETS1 w) ''secrets_initialized'') = Some ''true''"
  shows "handleStoreSecrets1 js amb w header body =
     (Returns (JsonResp 403 (JObj [(''error'', JStr (if truthy_str header \<and> the header = SETUP_TOKEN1 w then ''Secrets already initialized'' else ''Invalid setup token''))])), w)"
  using assms by (auto simp: handleStoreSecrets1_def json_error1_def)


lemma logAudit1_frame [simp]:
  "SECRETS1 (logAudit1 amb iu it a d w) = SECRETS1 w"
  "SESSIONS1 (logAudit1 amb iu it a d w) = SESSIONS1 w"
  "SETUP_TOKEN1 (logAudit1 amb iu it a d w) = SETUP_TOKEN1 w"
  by (simp_all add: logAudit1_def)

lemma step1_keeps_lock:
  assumes "locked1 w"
  shows "locked1 (snd (step1 js amb w r)) \<and> SETUP_TOKEN1 (snd (step1 js amb w r)) = SETUP_TOKEN1 w"
proof (cases r)
  case (StoreSecrets1 h b)
  from assms have "map_option (kv_text js) (kv_get (SECRETS1 w) ''secrets_initialized'') = Some ''true''"
    by (simp add: locked1_def kv_text_def)
  from handleStoreSecrets1_locked [OF this] StoreSecrets1 assms show ?thesis by simp
next
  case (OAuthInit1 p)
  with assms show ?thesis by (simp add: handleOAuthInit1_def locked1_def Let_def)
next
  case (OAuthCallback1 c st)
  with assms show ?thesis
    by (auto simp: handleOAuthCallback1_def locked1_def Let_def kv_get_kv_put split: option.splits json.splits)
next
  case (InboundEmail1 b)
  with assms show ?thesis
    by (auto simp: handleInboundEmail1_def locked1_def Let_def kv_get_kv_put split: option.splits)
next
  case (CreateCheckout1 b)
  with assms show ?thesis
    by (auto simp: handleCreateCheckout1_def locked1_def Let_def kv_get_kv_put split: option.splits json.splits)
next
  case (Deliver1 t)
  with assms show ?thesis
    by (auto simp: handleDeliver1_def locked1_def Let_def split: option.splits)
next
  case (Audit1 b)
  with assms show ?thesis
    by (auto simp: handleAudit1_def locked1_def Let_def split: option.splits json.splits)
next
  case GetAuditLogs1
  with assms show ?thesis by (simp add: handleGetAuditLogs1_def Let_def)
next
  case GetMessages1
  with assms show ?thesis by (simp add: handleGetMessages1_def split: option.splits)
next
  case (StoreToken1 b)
  with assms show ?thesis
    by (auto simp: handleStoreToken1_def locked1_def Let_def kv_get_kv_put split: option.splits json.splits)
qed

lemma run1_keeps_lock:
  "locked1 w \<Longrightarrow> locked1 (run1 js w rs) \<and> SETUP_TOKEN1 (run1 js w rs) = SETUP_TOKEN1 w"
proof (induction rs arbitrary: w)
  case Nil
  then show ?case by simp
next
  case (Cons a rs)
  obtain amb r where a: "a = (amb, r)" by (cases a)
  from step1_keeps_lock [OF Cons.prems, of js amb r] Cons.IH [of "snd (step1 js amb w r)"] a
  show ?case by simp
qed

lemma handleStoreSecrets1_after_lock:
  assumes "tok \<noteq> []" "SETUP_TOKEN1 w = tok" "locked1 w"
  shows "handleStoreSecrets1 js amb (run1 js w rs) header body
         = (Returns (JsonResp 403 (JObj [(''error'',
              JStr (if header = Some tok then ''Secrets already initialized'' else ''Invalid setup token''))])),
            run1 js w rs)"
proof -
  from run1_keeps_lock [OF assms(3), of js rs] assms(2)
  have l: "locked1 (run1 js w rs)" and t: "SETUP_TOKEN1 (run1 js w rs) = tok" by simp_all
  from l have "map_option (kv_text js) (kv_get (SECRETS1 (run1 js w rs)) ''secrets_initialized'') = Some ''true''"
    by (simp add: locked1_def kv_text_def)
  from handleStoreSecrets1_locked [OF this, of amb header body] t assms(1)
  show ?thesis by (cases header) (auto simp: truthy_str_def)
qed

lemma secrets_body_stored:
  assumes "fst (store_each1 r (map (\<lambda>(k, s). (k, JStr s)) S) s0)" and "distinct (map fst S)"
    and "(k, s) \<in> set S"
  shows "kv_get (snd (store_each1 r (map (\<lambda>(k, s). (k, JStr s)) S) s0)) (''secret_'' @ k) = Some (Text s)"
proof -
  let ?es = "map (\<lambda>(k, s). (k, JStr s)) S"
  from assms(3) have "k \<in> fst ` set ?es" by force
  from store_each1_stored [OF assms(1) this] obtain v' where
    v: "(k, v') \<in> set ?es" and g: "kv_get (snd (store_each1 r ?es s0)) (''secret_'' @ k) = Some (Text (js_String v'))"
    by blast
  from v obtain s' where s': "(k, s') \<in> set S" "v' = JStr s'" by auto
  from assms(2,3) s'(1) have "s' = s" by (meson eq_key_imp_eq_value)
  with g s'(2) show ?thesis by simp
qed

lemma handleStoreSecrets1_first_call:
  assumes "tok \<noteq> []" "SETUP_TOKEN1 w = tok"
    and "kv_get (SECRETS1 w) ''secrets_initialized'' = None"
    and "distinct (map fst S)"
    and "\<forall>(k, s) \<in> set S. \<not> write_refused amb (''secret_'' @ k) (JStr s)"
    and "\<not> write_refused amb ''secrets_initialized'' (JStr ''true'')"
  shows "\<exists>w'. handleStoreSecrets1 js amb w (Some tok) (Some (secrets_body S))
              = (Returns (JsonResp 200 (JObj [(''success'', JBool True),
                                            (''message'', JStr ''Secrets stored successfully'')])), w')
          \<and> (\<forall>(k, s) \<in> set S. kv_get (SECRETS1 w') (''secret_'' @ k) = Some (Text s))
          \<and> (\<forall>key. key \<noteq> ''secrets_initialized'' \<and> key \<notin> (\<lambda>k. ''secret_'' @ k) ` fst ` set S
                 \<longrightarrow> kv_get (SECRETS1 w') key = kv_get (SECRETS1 w) key)
          \<and> SETUP_TOKEN1 w' = tok \<and> locked1 w'"
proof -
  let ?es = "map (\<lambda>(k, s). (k, JStr s)) S"
  let ?r = "store_each1 (write_refused amb) ?es (SECRETS1 w)"
  obtain b s where se: "?r = (b, s)" by (cases ?r)
  from assms(5) have f: "fst ?r" by (auto simp: store_each1_complete)
  with se have b: "b" by simp
  from assms(3) have nt: "map_option (kv_text js) (kv_get (SECRETS1 w) ''secrets_initialized'') \<noteq> Some ''true''"
    by simp
  let ?w' = "logAudit1 amb 0 0 ''secrets_stored'' ''System secrets initialized''
               (w\<lparr>SECRETS1 := kv_put ''secrets_initialized'' (Text ''true'') s\<rparr>)"
  have res: "handleStoreSecrets1 js amb w (Some tok) (Some (secrets_body S))
      = (Returns (JsonResp 200 (JObj [(''success'', JBool True),
                                            (''message'', JStr ''Secrets stored successfully'')])), ?w')"
    using handleStoreSecrets1_open [OF assms(1,2) nt, of "secrets_body S" amb] se b assms(6)
    by (simp add: Let_def secrets_body_def)
  have s: "s = snd ?r" using se by simp
  have 1: "\<forall>(k, t) \<in> set S. kv_get (SECRETS1 ?w') (''secret_'' @ k) = Some (Text t)"
  proof (clarify)
    fix k t assume "(k, t) \<in> set S"
    from secrets_body_stored [OF f assms(4) this] s
    show "kv_get (SECRETS1 ?w') (''secret_'' @ k) = Some (Text t)"
      by (simp add: kv_get_kv_put)
  qed
  have im: "fst ` set ?es = fst ` set S" by force
  have 2: "\<forall>key. key \<noteq> ''secrets_initialized'' \<and> key \<notin> (\<lambda>k. ''secret_'' @ k) ` fst ` set S
                 \<longrightarrow> kv_get (SECRETS1 ?w') key = kv_get (SECRETS1 w) key"
    using store_each1_other [of _ ?es "write_refused amb" "SECRETS1 w"] s im
    by (simp add: kv_get_kv_put)
  have 3: "SETUP_TOKEN1 ?w' = tok \<and> locked1 ?w'"
    using assms(2) by (simp add: locked1_def kv_get_kv_put)
  from res 1 2 3 show ?thesis by blast
qed

subsection \<open>The state record and the callback\<close>

lemma kv_get_live_Some:
  "kv_get s k = Some (v, expires) \<Longrightarrow> now < expires \<Longrightarrow> kv_get_live now s k = Some v"
  by (simp add: kv_get_live_def)

lemma kv_get_live_expired:
  "kv_get s k = Some (v, expires) \<Longrightarrow> expires \<le> now \<Longrightarrow> kv_get_live now s k = None"
  by (simp add: kv_get_live_def)

lemma kv_get_live_absent: "kv_get s k = None \<Longrightarrow> kv_get_live now s k = None"
  by (simp add: kv_get_live_def)

lemma handleOAuthCallback1_sessions:
  "SESSIONS1 (snd (handleOAuthCallback1 amb w code state)) = SESSIONS1 w"
  by (auto simp: handleOAuthCallback1_def Let_def split: option.splits json.splits)

lemma handleOAuthCallback1_no_record:
  assumes "code \<noteq> []" "state \<noteq> []"
    and "kv_get_live (clock_seconds amb) (SESSIONS1 w) (''session_'' @ state) = None"
  shows "handleOAuthCallback1 amb w (Some code) (Some state)
         = (Returns (JsonResp 403 (JObj [(''error'', JStr ''Session expired'')])), w)"
  using assms by (simp add: handleOAuthCallback1_def truthy_str_def json_error1_def)

lemma handleOAuthCallback1_open:
  assumes "code \<noteq> []" "state \<noteq> []"
    and "kv_get_live (clock_seconds amb) (SESSIONS1 w) (''session_'' @ state) = Some session"
    and "session \<noteq> JNull"
  shows "handleOAuthCallback1 amb w (Some code) (Some state)
         = (if write_refused amb (''oauth_token_'' @ template (field session ''provider''))
                 (JStr (''token_'' @ take 10 code))
            then (Throws WriteFailed, w)
            else (Returns (JsonResp 200 (JObj [(''success'', JBool True),
                                               (''message'', JStr ''OAuth completed successfully'')])),
                  w\<lparr>SECRETS1 := kv_put (''oauth_token_'' @ template (field session ''provider''))
                                   (Text (''token_'' @ take 10 code)) (SECRETS1 w),
                    AUDIT1 := kv_put (''audit_'' @ random_uuid amb 0)
                                (JObj [(''admin'', JStr ''Keli''), (''action'', JStr ''oauth_complete''),
                                       (''details'', JStr (''OAuth completed for ''
                                                          @ template (field session ''provider''))),
                                       (''timestamp'', JStr (clock_iso amb 0))])
                                (AUDIT1 w)\<rparr>))"
  using assms
  by (cases session) (simp_all add: handleOAuthCallback1_def truthy_str_def Let_def logAudit1_def)

subsection \<open>Audit entries\<close>

lemma field_kv_put: "field (JObj (kv_put k v kvs)) k' = (if k' = k then Some v else field (JObj kvs) k')"
  using kv_get_kv_put [of k v kvs k'] by (simp add: field_def kv_get_def)

lemma audit_entry1_object_admin:
  "field (audit_entry1 amb (JObj kvs)) ''admin'' = Some (JStr ''Keli'')"
  by (simp add: audit_entry1_def Let_def field_kv_put)

subsection \<open>Listings\<close>

lemma kv_list_sorted: "sorted (kv_list p n s)" "distinct (kv_list p n s)"
  by (simp_all add: kv_list_def sorted_wrt_take)



lemma kv_list_smallest:
  assumes "k \<in> fst ` set s" "starts_with p k" "k \<notin> set (kv_list p n s)" "k' \<in> set (kv_list p n s)"
  shows "k' < k"
proof -
  define xs where "xs = sort (remdups (filter (starts_with p) (map fst s)))"
  define ys where "ys = take n xs"
  define zs where "zs = drop n xs"
  have xs: "xs = ys @ zs" by (simp add: ys_def zs_def)
  have srt: "sorted xs" and dst: "distinct xs" by (simp_all add: xs_def)
  have kx: "k \<in> set xs" using assms(1,2) by (auto simp: xs_def)
  from assms(3) have "k \<notin> set ys" by (simp add: kv_list_def ys_def xs_def)
  with kx xs have kd: "k \<in> set zs" by simp
  from assms(4) have kt: "k' \<in> set ys" by (simp add: kv_list_def ys_def xs_def)
  from srt xs kt kd have le: "k' \<le> k" by (auto simp: sorted_append)
  from dst xs kt kd have "k' \<noteq> k" by auto
  with le show ?thesis by simp
qed





subsection \<open>An audit namespace with more entries than a listing returns\<close>













subsection \<open>Delivery records\<close>







section \<open>The payload of the initialization\<close>

text \<open>
  C10, as the claim states it, fails: \<^verbatim>\<open>handleStoreSecrets\<close> makes no check of the payload
  and takes the secrets map as the top-level body, as the README's API reference shows
  it. A body that is the map itself, without a \<^verbatim>\<open>secrets\<close> property, is answered 200 and
  its entries are stored.
\<close>

theorem initializeSecrets_top_level_payload_counterexample:
  "field (JObj [(''STRIPE_SECRET_KEY'', JStr ''sk_1'')]) ''secrets'' = None
   \<and> fst (handleStoreSecrets1 demo_js demo_amb demo_world1 (Some ''s3tup'')
            (Some (JObj [(''STRIPE_SECRET_KEY'', JStr ''sk_1'')])))
      = Returns (JsonResp 200 (JObj [(''success'', JBool True),
                                     (''message'', JStr ''Secrets stored successfully'')]))
   \<and> kv_get (SECRETS1 (snd (handleStoreSecrets1 demo_js demo_amb demo_world1 (Some ''s3tup'')
            (Some (JObj [(''STRIPE_SECRET_KEY'', JStr ''sk_1'')]))))) ''secret_STRIPE_SECRET_KEY''
      = Some (Text ''sk_1'')"
  by (simp add: handleStoreSecrets1_def demo_world1_def demo_amb_def kv_get_def truthy_str_def
        field_def Let_def logAudit1_def)

text \<open>
  C10, amended. \<^verbatim>\<open>handleStoreSecrets\<close> never answers 400: it has no rejection for the shape
  of the body, and the secrets map is the top-level body, not a \<^verbatim>\<open>secrets\<close> property of it.
  The calls that fail before any secret is written, with the store unchanged, are: a
  missing or wrong credential (403 \<^verbatim>\<open>Invalid setup token\<close>); with the valid credential, a
  flag already set (403 \<^verbatim>\<open>Secrets already initialized\<close>); and, with the valid credential and
  the flag unset, a body that is not JSON or is \<^verbatim>\<open>null\<close> (the handler throws). With the valid
  credential, the flag unset and the store accepting the writes, a body that is a secrets
  map \<open>S\<close> (names to strings) is answered 200 and every entry of \<open>S\<close> is written as
  \<^verbatim>\<open>secret_k\<close>. A body that nests a map under \<^verbatim>\<open>secrets\<close> is not unpacked: its one property
  is written as the one record \<^verbatim>\<open>secret_secrets\<close>, and when the store refuses that value,
  as it does an object, the handler throws and nothing is stored.
\<close>

theorem handleStoreSecrets1_takes_top_level_payload:
  assumes "tok \<noteq> []" and "SETUP_TOKEN1 w = tok"
  shows "fst (handleStoreSecrets1 js amb w header body) \<noteq> Returns (JsonResp 400 b)
    \<and> (header \<noteq> Some tok \<longrightarrow>
         handleStoreSecrets1 js amb w header body
         = (Returns (JsonResp 403 (JObj [(''error'', JStr ''Invalid setup token'')])), w))
    \<and> (kv_get (SECRETS1 w) ''secrets_initialized'' = Some (Text ''true'') \<longrightarrow>
         handleStoreSecrets1 js amb w (Some tok) body
         = (Returns (JsonResp 403 (JObj [(''error'', JStr ''Secrets already initialized'')])), w))
    \<and> (kv_get (SECRETS1 w) ''secrets_initialized'' = None \<longrightarrow>
         handleStoreSecrets1 js amb w (Some tok) None = (Throws SyntaxError, w)
         \<and> handleStoreSecrets1 js amb w (Some tok) (Some JNull) = (Throws TypeError, w)
         \<and> (distinct (map fst S)
              \<and> (\<forall>(k, s) \<in> set S. \<not> write_refused amb (''secret_'' @ k) (JStr s))
              \<and> \<not> write_refused amb ''secrets_initialized'' (JStr ''true'') \<longrightarrow>
            (\<exists>w'. handleStoreSecrets1 js amb w (Some tok) (Some (secrets_body S))
                     = (Returns (JsonResp 200 (JObj [(''success'', JBool True),
                                                     (''message'', JStr ''Secrets stored successfully'')])), w')
                \<and> (\<forall>(k, s) \<in> set S. kv_get (SECRETS1 w') (''secret_'' @ k) = Some (Text s))))
         \<and> (write_refused amb ''secret_secrets'' v \<longrightarrow>
               handleStoreSecrets1 js amb w (Some tok) (Some (JObj [(''secrets'', v)]))
               = (Throws WriteFailed, w)))"
proof (intro conjI impI)
  show "fst (handleStoreSecrets1 js amb w header body) \<noteq> Returns (JsonResp 400 b)"
    by (auto simp: handleStoreSecrets1_def json_error1_def Let_def
             split: option.splits json.splits prod.splits bool.splits)
next
  assume "header \<noteq> Some tok"
  with assms show "handleStoreSecrets1 js amb w header body
         = (Returns (JsonResp 403 (JObj [(''error'', JStr ''Invalid setup token'')])), w)"
    by (cases header) (auto simp: handleStoreSecrets1_def json_error1_def truthy_str_def)
next
  assume "kv_get (SECRETS1 w) ''secrets_initialized'' = Some (Text ''true'')"
  then have "map_option (kv_text js) (kv_get (SECRETS1 w) ''secrets_initialized'') = Some ''true''"
    by (simp add: kv_text_def)
  from handleStoreSecrets1_locked [OF this, of amb "Some tok" body] assms
  show "handleStoreSecrets1 js amb w (Some tok) body
         = (Returns (JsonResp 403 (JObj [(''error'', JStr ''Secrets already initialized'')])), w)"
    by (simp add: truthy_str_def)
next
  assume u: "kv_get (SECRETS1 w) ''secrets_initialized'' = None"
  with assms show "handleStoreSecrets1 js amb w (Some tok) None = (Throws SyntaxError, w)"
    by (simp add: handleStoreSecrets1_def truthy_str_def)
  from u assms show "handleStoreSecrets1 js amb w (Some tok) (Some JNull) = (Throws TypeError, w)"
    by (simp add: handleStoreSecrets1_def truthy_str_def)
  assume h: "distinct (map fst S)
              \<and> (\<forall>(k, s) \<in> set S. \<not> write_refused amb (''secret_'' @ k) (JStr s))
              \<and> \<not> write_refused amb ''secrets_initialized'' (JStr ''true'')"
  then have d: "distinct (map fst S)"
    and a: "\<forall>(k, s) \<in> set S. \<not> write_refused amb (''secret_'' @ k) (JStr s)"
    and f: "\<not> write_refused amb ''secrets_initialized'' (JStr ''true'')" by simp_all
  from handleStoreSecrets1_first_call [OF assms u d a f, of js]
  show "\<exists>w'. handleStoreSecrets1 js amb w (Some tok) (Some (secrets_body S))
                     = (Returns (JsonResp 200 (JObj [(''success'', JBool True),
                                                     (''message'', JStr ''Secrets stored successfully'')])), w')
                \<and> (\<forall>(k, s) \<in> set S. kv_get (SECRETS1 w') (''secret_'' @ k) = Some (Text s))"
    by blast
next
  assume u: "kv_get (SECRETS1 w) ''secrets_initialized'' = None"
    and r: "write_refused amb ''secret_secrets'' v"
  with assms show "handleStoreSecrets1 js amb w (Some tok) (Some (JObj [(''secrets'', v)]))
               = (Throws WriteFailed, w)"
    by (simp add: handleStoreSecrets1_def truthy_str_def)
qed

theorem handleStoreSecrets1_takes_top_level_payload_witness:
  "''s3tup'' \<noteq> [] \<and> SETUP_TOKEN1 demo_world1 = ''s3tup''
   \<and> Some ''guess'' \<noteq> Some ''s3tup''
   \<and> handleStoreSecrets1 demo_js demo_amb demo_world1 (Some ''guess'')
        (Some (JObj [(''secrets'', JObj [(''A'', JStr ''x'')])]))
      = (Returns (JsonResp 403 (JObj [(''error'', JStr ''Invalid setup token'')])), demo_world1)
   \<and> kv_get (SECRETS1 demo_world1) ''secrets_initialized'' = None
   \<and> handleStoreSecrets1 demo_js demo_amb demo_world1 (Some ''s3tup'') (Some JNull)
      = (Throws TypeError, demo_world1)
   \<and> distinct (map fst [(''STRIPE_SECRET_KEY'', ''sk_1'')])
   \<and> \<not> write_refused demo_amb ''secret_STRIPE_SECRET_KEY'' (JStr ''sk_1'')
   \<and> \<not> write_refused demo_amb ''secrets_initialized'' (JStr ''true'')
   \<and> fst (handleStoreSecrets1 demo_js demo_amb demo_world1 (Some ''s3tup'')
            (Some (secrets_body [(''STRIPE_SECRET_KEY'', ''sk_1'')])))
      = Returns (JsonResp 200 (JObj [(''success'', JBool True),
                                     (''message'', JStr ''Secrets stored successfully'')]))
   \<and> write_refused demo_amb_texts_only ''secret_secrets'' (JObj [(''A'', JStr ''x'')])
   \<and> handleStoreSecrets1 demo_js demo_amb_texts_only demo_world1 (Some ''s3tup'')
        (Some (JObj [(''secrets'', JObj [(''A'', JStr ''x'')])]))
      = (Throws WriteFailed, demo_world1)
   \<and> kv_get (SECRETS1 demo_locked_world1)
        ''secrets_initialized'' = Some (Text ''true'')
   \<and> handleStoreSecrets1 demo_js demo_amb demo_locked_world1
        (Some ''s3tup'') (Some (secrets_body [(''STRIPE_SECRET_KEY'', ''sk_1'')]))
      = (Returns (JsonResp 403 (JObj [(''error'', JStr ''Secrets already initialized'')])),
         demo_locked_world1)"
proof -
  let ?S = "[(''STRIPE_SECRET_KEY'', ''sk_1'')]"
  let ?locked = "demo_locked_world1"
  have a: "''s3tup'' \<noteq> []" by simp
  have b: "SETUP_TOKEN1 demo_world1 = ''s3tup''" and b': "SETUP_TOKEN1 ?locked = ''s3tup''"
    by (simp_all add: demo_world1_def demo_locked_world1_def)
  have c: "Some ''guess'' \<noteq> Some ''s3tup''" by simp
  have d: "kv_get (SECRETS1 demo_world1) ''secrets_initialized'' = None"
    by (simp add: demo_world1_def kv_get_def)
  have e: "distinct (map fst ?S)
           \<and> (\<forall>(k, s) \<in> set ?S. \<not> write_refused demo_amb (''secret_'' @ k) (JStr s))
           \<and> \<not> write_refused demo_amb ''secrets_initialized'' (JStr ''true'')"
    by (simp add: demo_amb_def)
  have e': "distinct (map fst ?S) \<and> \<not> write_refused demo_amb ''secret_STRIPE_SECRET_KEY'' (JStr ''sk_1'')
           \<and> \<not> write_refused demo_amb ''secrets_initialized'' (JStr ''true'')"
    by (simp add: demo_amb_def)
  have f: "kv_get (SECRETS1 ?locked) ''secrets_initialized'' = Some (Text ''true'')"
    by (simp add: demo_locked_world1_def kv_get_def)
  note T = handleStoreSecrets1_takes_top_level_payload [OF a b, where js = demo_js and amb = demo_amb
             and S = ?S]
  note U = handleStoreSecrets1_takes_top_level_payload [OF a b', where js = demo_js and amb = demo_amb]
  note 1 = T [where header = "Some ''guess''" and body = "Some (JObj [(''secrets'', JObj [(''A'', JStr ''x'')])])",
              THEN conjunct2, THEN conjunct1, THEN mp, OF c]
  note T4 = T [THEN conjunct2, THEN conjunct2, THEN conjunct2, THEN mp, OF d]
  note 2 = T4 [THEN conjunct2, THEN conjunct1]
  from T4 [THEN conjunct2, THEN conjunct2, THEN conjunct1, THEN mp, OF e] obtain w' where
    "handleStoreSecrets1 demo_js demo_amb demo_world1 (Some ''s3tup'') (Some (secrets_body ?S))
       = (Returns (JsonResp 200 (JObj [(''success'', JBool True),
                                       (''message'', JStr ''Secrets stored successfully'')])), w')"
    by (elim exE conjE) (rule that)
  then have 3: "fst (handleStoreSecrets1 demo_js demo_amb demo_world1 (Some ''s3tup'') (Some (secrets_body ?S)))
      = Returns (JsonResp 200 (JObj [(''success'', JBool True),
                                     (''message'', JStr ''Secrets stored successfully'')]))"
    by simp
  note 4 = U [where body = "Some (secrets_body ?S)", THEN conjunct2, THEN conjunct2, THEN conjunct1, THEN mp, OF f]
  have g: "write_refused demo_amb_texts_only ''secret_secrets'' (JObj [(''A'', JStr ''x'')])"
    by (simp add: demo_amb_texts_only_def not_a_text_def)
  note V = handleStoreSecrets1_takes_top_level_payload [OF a b, where js = demo_js and amb = demo_amb_texts_only]
  note 5 = V [THEN conjunct2, THEN conjunct2, THEN conjunct2, THEN mp, OF d,
              THEN conjunct2, THEN conjunct2, THEN conjunct2, THEN mp, OF g]
  from a b c 1 d 2 e' 3 g 5 f 4 show ?thesis by (intro conjI) simp_all
qed

section \<open>Write order of the initialization (first listing)\<close>



section \<open>One-time initialization\<close>

text \<open>
  C1, as the claim states it, fails in two places. The answer to the first call is a fixed
  success message: it does not hold the list of the stored key names. And the credential
  is checked before the flag, so a later call with a wrong credential is answered
  \<^verbatim>\<open>Invalid setup token\<close>, not with the already-initialized error.
\<close>

theorem initializeSecrets_response_counterexample:
  "fst (handleStoreSecrets1 demo_js demo_amb demo_world1 (Some ''s3tup'') (Some (JObj [(''A'', JStr ''x'')])))
     = Returns (JsonResp 200 (JObj [(''success'', JBool True),
                                    (''message'', JStr ''Secrets stored successfully'')]))
   \<and> fst (handleStoreSecrets1 demo_js demo_amb
            (snd (handleStoreSecrets1 demo_js demo_amb demo_world1 (Some ''s3tup'')
                    (Some (JObj [(''A'', JStr ''x'')]))))
            (Some ''wrong'') (Some (JObj [(''A'', JStr ''y'')])))
     = Returns (JsonResp 403 (JObj [(''error'', JStr ''Invalid setup token'')]))"
  by (simp add: handleStoreSecrets1_def demo_world1_def demo_amb_def kv_get_def truthy_str_def
        json_error1_def Let_def logAudit1_def)

text \<open>
  C1, amended. With the valid credential and the flag unset, the call on a secrets map \<open>S\<close>
  (names to strings) whose writes the store accepts is answered 200 with a success
  message, without the key names; it has written \<^verbatim>\<open>secret_k\<close> with its value for every key
  \<open>k\<close> of \<open>S\<close>, has set the flag, and has changed no other key of the secrets namespace. From
  then on, after any run of requests to any of the routes, a call of
  \<^verbatim>\<open>handleStoreSecrets\<close> with any header and any body is answered 403 and changes nothing:
  \<^verbatim>\<open>Secrets already initialized\<close> when the header is the valid credential,
  \<^verbatim>\<open>Invalid setup token\<close> otherwise. No route resets the flag.
\<close>

theorem initializeSecrets_gate_and_stored_keys:
  assumes "tok \<noteq> []" and "SETUP_TOKEN1 w = tok"
    and "kv_get (SECRETS1 w) ''secrets_initialized'' = None"
    and "distinct (map fst S)"
    and "\<forall>(k, s) \<in> set S. \<not> write_refused amb (''secret_'' @ k) (JStr s)"
    and "\<not> write_refused amb ''secrets_initialized'' (JStr ''true'')"
  shows "\<exists>w'. handleStoreSecrets1 js amb w (Some tok) (Some (secrets_body S))
               = (Returns (JsonResp 200 (JObj [(''success'', JBool True),
                                               (''message'', JStr ''Secrets stored successfully'')])), w')
          \<and> (\<forall>(k, s) \<in> set S. kv_get (SECRETS1 w') (''secret_'' @ k) = Some (Text s))
          \<and> kv_get (SECRETS1 w') ''secrets_initialized'' = Some (Text ''true'')
          \<and> (\<forall>key. key \<noteq> ''secrets_initialized'' \<and> key \<notin> (\<lambda>k. ''secret_'' @ k) ` fst ` set S
                 \<longrightarrow> kv_get (SECRETS1 w') key = kv_get (SECRETS1 w) key)
          \<and> (\<forall>rs (amb'::ambient) header body.
                 handleStoreSecrets1 js amb' (run1 js w' rs) header body
                 = (Returns (JsonResp 403 (JObj [(''error'',
                      JStr (if header = Some tok then ''Secrets already initialized''
                            else ''Invalid setup token''))])),
                    run1 js w' rs))"
proof -
  from handleStoreSecrets1_first_call [OF assms, of js]
  obtain w' where r: "handleStoreSecrets1 js amb w (Some tok) (Some (secrets_body S))
               = (Returns (JsonResp 200 (JObj [(''success'', JBool True),
                                               (''message'', JStr ''Secrets stored successfully'')])), w')"
    and st: "\<forall>(k, s) \<in> set S. kv_get (SECRETS1 w') (''secret_'' @ k) = Some (Text s)"
    and ot: "\<forall>key. key \<noteq> ''secrets_initialized'' \<and> key \<notin> (\<lambda>k. ''secret_'' @ k) ` fst ` set S
                 \<longrightarrow> kv_get (SECRETS1 w') key = kv_get (SECRETS1 w) key"
    and t': "SETUP_TOKEN1 w' = tok" and l: "locked1 w'"
    by blast
  from l have fl: "kv_get (SECRETS1 w') ''secrets_initialized'' = Some (Text ''true'')"
    by (simp add: locked1_def)
  have later: "\<forall>rs (amb'::ambient) header body.
                 handleStoreSecrets1 js amb' (run1 js w' rs) header body
                 = (Returns (JsonResp 403 (JObj [(''error'',
                      JStr (if header = Some tok then ''Secrets already initialized''
                            else ''Invalid setup token''))])),
                    run1 js w' rs)"
    using handleStoreSecrets1_after_lock [OF assms(1) t' l] by blast
  from r st fl ot later show ?thesis by blast
qed

theorem initializeSecrets_gate_and_stored_keys_witness:
  "''s3tup'' \<noteq> [] \<and> SETUP_TOKEN1 demo_world1 = ''s3tup''
   \<and> kv_get (SECRETS1 demo_world1) ''secrets_initialized'' = None
   \<and> distinct (map fst [(''A'', ''x''), (''B'', ''y'')])
   \<and> \<not> write_refused demo_amb ''secret_A'' (JStr ''x'') \<and> \<not> write_refused demo_amb ''secret_B'' (JStr ''y'')
   \<and> \<not> write_refused demo_amb ''secrets_initialized'' (JStr ''true'')
   \<and> fst (handleStoreSecrets1 demo_js demo_amb demo_world1 (Some ''s3tup'')
            (Some (secrets_body [(''A'', ''x''), (''B'', ''y'')])))
       = Returns (JsonResp 200 (JObj [(''success'', JBool True),
                                      (''message'', JStr ''Secrets stored successfully'')]))
   \<and> kv_get (SECRETS1 (snd (handleStoreSecrets1 demo_js demo_amb demo_world1 (Some ''s3tup'')
            (Some (secrets_body [(''A'', ''x''), (''B'', ''y'')]))))) ''secret_B'' = Some (Text ''y'')
   \<and> handleStoreSecrets1 demo_js demo_amb
        (snd (handleStoreSecrets1 demo_js demo_amb demo_world1 (Some ''s3tup'')
                (Some (secrets_body [(''A'', ''x''), (''B'', ''y'')]))))
        (Some ''s3tup'') (Some (JObj [(''A'', JStr ''z'')]))
       = (Returns (JsonResp 403 (JObj [(''error'', JStr ''Secrets already initialized'')])),
          snd (handleStoreSecrets1 demo_js demo_amb demo_world1 (Some ''s3tup'')
                (Some (secrets_body [(''A'', ''x''), (''B'', ''y'')]))))"
proof -
  let ?S = "[(''A'', ''x''), (''B'', ''y'')]"
  have a: "''s3tup'' \<noteq> []" by simp
  have b: "SETUP_TOKEN1 demo_world1 = ''s3tup''" by (simp add: demo_world1_def)
  have c: "kv_get (SECRETS1 demo_world1) ''secrets_initialized'' = None"
    by (simp add: demo_world1_def kv_get_def)
  have d: "distinct (map fst ?S)" by simp
  have e: "\<forall>(k, s) \<in> set ?S. \<not> write_refused demo_amb (''secret_'' @ k) (JStr s)"
    by (simp add: demo_amb_def)
  have e': "\<not> write_refused demo_amb ''secret_A'' (JStr ''x'') \<and> \<not> write_refused demo_amb ''secret_B'' (JStr ''y'')"
    by (simp add: demo_amb_def)
  have f: "\<not> write_refused demo_amb ''secrets_initialized'' (JStr ''true'')"
    by (simp add: demo_amb_def)
  from initializeSecrets_gate_and_stored_keys [OF a b c d e f, of demo_js] obtain w' where
    1: "handleStoreSecrets1 demo_js demo_amb demo_world1 (Some ''s3tup'') (Some (secrets_body ?S))
         = (Returns (JsonResp 200 (JObj [(''success'', JBool True),
                                         (''message'', JStr ''Secrets stored successfully'')])), w')"
    and 2: "\<forall>(k, s) \<in> set ?S. kv_get (SECRETS1 w') (''secret_'' @ k) = Some (Text s)"
    and 3: "\<forall>rs (amb'::ambient) header body.
                 handleStoreSecrets1 demo_js amb' (run1 demo_js w' rs) header body
                 = (Returns (JsonResp 403 (JObj [(''error'',
                      JStr (if header = Some ''s3tup'' then ''Secrets already initialized''
                            else ''Invalid setup token''))])),
                    run1 demo_js w' rs)"
    by (elim exE conjE) (rule that)
  from 2 have 4: "kv_get (SECRETS1 w') ''secret_B'' = Some (Text ''y'')" by simp
  from 3 [rule_format, of demo_amb "[]" "Some ''s3tup''" "Some (JObj [(''A'', JStr ''z'')])"]
  have 5: "handleStoreSecrets1 demo_js demo_amb w' (Some ''s3tup'') (Some (JObj [(''A'', JStr ''z'')]))
      = (Returns (JsonResp 403 (JObj [(''error'', JStr ''Secrets already initialized'')])), w')"
    by simp
  have w': "snd (handleStoreSecrets1 demo_js demo_amb demo_world1 (Some ''s3tup'') (Some (secrets_body ?S))) = w'"
    using 1 by simp
  from a b c d e' f 1 4 5 show ?thesis unfolding w' by (intro conjI) simp_all
qed

section \<open>Callbacks without a state record\<close>

text \<open>
  C4. For every non-empty code and every non-empty state for which the sessions namespace
  returns no record, because none was written under it or because the one written has
  expired, \<^verbatim>\<open>handleOAuthCallback\<close> answers 403 \<^verbatim>\<open>Session expired\<close>, whatever the code is, and
  changes nothing. (A callback without a code or without a state is answered 400 before
  the state is looked up.)
\<close>

theorem complete_unknown_state_rejected:
  assumes "code \<noteq> []" and "state \<noteq> []"
    and "kv_get (SESSIONS1 w) (''session_'' @ state) = None
         \<or> (\<exists>doc expires. kv_get (SESSIONS1 w) (''session_'' @ state) = Some (doc, expires)
                \<and> expires \<le> clock_seconds amb)"
  shows "handleOAuthCallback1 amb w (Some code) (Some state)
         = (Returns (JsonResp 403 (JObj [(''error'', JStr ''Session expired'')])), w)"
proof -
  from assms(3) have "kv_get_live (clock_seconds amb) (SESSIONS1 w) (''session_'' @ state) = None"
    by (auto simp: kv_get_live_def)
  with assms(1,2) show ?thesis by (rule handleOAuthCallback1_no_record)
qed

theorem complete_unknown_state_rejected_witness:
  "''abc'' \<noteq> [] \<and> ''st-1'' \<noteq> []
   \<and> kv_get (SESSIONS1 demo_world1) (''session_'' @ ''st-1'') = None
   \<and> handleOAuthCallback1 demo_amb demo_world1 (Some ''abc'') (Some ''st-1'')
      = (Returns (JsonResp 403 (JObj [(''error'', JStr ''Session expired'')])), demo_world1)
   \<and> kv_get (SESSIONS1 demo_oauth_world1) (''session_'' @ ''st-1'')
      = Some (JObj [(''provider'', JStr ''stripe''), (''created'', JStr ''2026-01-01T00:00:00.000Z''),
                    (''admin'', JStr ''Keli'')], 1767226200)
   \<and> (1767226200::nat) \<le> clock_seconds demo_amb_later
   \<and> handleOAuthCallback1 demo_amb_later demo_oauth_world1 (Some ''abc'') (Some ''st-1'')
      = (Returns (JsonResp 403 (JObj [(''error'', JStr ''Session expired'')])), demo_oauth_world1)"
proof -
  have a: "''abc'' \<noteq> []" and b: "''st-1'' \<noteq> []" by simp_all
  have c: "kv_get (SESSIONS1 demo_world1) (''session_'' @ ''st-1'') = None"
    by (simp add: demo_world1_def kv_get_def)
  have d: "kv_get (SESSIONS1 demo_oauth_world1) (''session_'' @ ''st-1'')
      = Some (JObj [(''provider'', JStr ''stripe''), (''created'', JStr ''2026-01-01T00:00:00.000Z''),
                    (''admin'', JStr ''Keli'')], 1767226200)"
    by (simp add: demo_oauth_world1_def demo_world1_def kv_get_def)
  have e: "(1767226200::nat) \<le> clock_seconds demo_amb_later"
    by (simp add: demo_amb_later_def)
  have 1: "handleOAuthCallback1 demo_amb demo_world1 (Some ''abc'') (Some ''st-1'')
      = (Returns (JsonResp 403 (JObj [(''error'', JStr ''Session expired'')])), demo_world1)"
    by (rule complete_unknown_state_rejected [OF a b]) (rule disjI1, rule c)
  have 2: "handleOAuthCallback1 demo_amb_later demo_oauth_world1 (Some ''abc'') (Some ''st-1'')
      = (Returns (JsonResp 403 (JObj [(''error'', JStr ''Session expired'')])), demo_oauth_world1)"
    by (rule complete_unknown_state_rejected [OF a b]) (rule disjI2, intro exI conjI, rule d, rule e)
  from a b c d e 1 2 show ?thesis by (intro conjI)
qed

section \<open>The state record after a callback\<close>

text \<open>
  C9. \<^verbatim>\<open>handleOAuthCallback\<close> only reads the state record. For every state record that is
  present and has not expired, a callback with a non-empty code (whose token write the
  store accepts) succeeds and leaves the sessions namespace, and so the record with its
  expiry time, as it was. A second callback with the same state and any non-empty code,
  made before the record expires, succeeds as well and puts its own token in place of the
  first under the provider's key. A callback made from the expiry time on is answered 403.
  No callback, whatever its arguments and its outcome, changes the sessions namespace: a
  state record is not consumed by its use and goes only by its expiry.
\<close>

theorem complete_does_not_consume_state:
  assumes "code \<noteq> []" and "state \<noteq> []"
    and "kv_get (SESSIONS1 w) (''session_'' @ state) = Some (session, expires)"
    and "session \<noteq> JNull" and "clock_seconds amb < expires"
    and "\<not> write_refused amb (''oauth_token_'' @ template (field session ''provider''))
             (JStr (''token_'' @ take 10 code))"
  shows "\<exists>w'. handleOAuthCallback1 amb w (Some code) (Some state)
               = (Returns (JsonResp 200 (JObj [(''success'', JBool True),
                                               (''message'', JStr ''OAuth completed successfully'')])), w')
          \<and> SESSIONS1 w' = SESSIONS1 w
          \<and> kv_get (SESSIONS1 w') (''session_'' @ state) = Some (session, expires)
          \<and> (\<forall>(amb'::ambient) code'.
                 code' \<noteq> [] \<and> clock_seconds amb' < expires
                 \<and> \<not> write_refused amb' (''oauth_token_'' @ template (field session ''provider''))
                        (JStr (''token_'' @ take 10 code')) \<longrightarrow>
                 (\<exists>w''. handleOAuthCallback1 amb' w' (Some code') (Some state)
                          = (Returns (JsonResp 200 (JObj [(''success'', JBool True),
                                               (''message'', JStr ''OAuth completed successfully'')])), w'')
                     \<and> kv_get (SECRETS1 w'') (''oauth_token_'' @ template (field session ''provider''))
                        = Some (Text (''token_'' @ take 10 code'))
                     \<and> SESSIONS1 w'' = SESSIONS1 w))
          \<and> (\<forall>(amb'::ambient) code'.
                 code' \<noteq> [] \<and> expires \<le> clock_seconds amb' \<longrightarrow>
                 handleOAuthCallback1 amb' w' (Some code') (Some state)
                 = (Returns (JsonResp 403 (JObj [(''error'', JStr ''Session expired'')])), w'))
          \<and> (\<forall>(amb'::ambient) v c s. SESSIONS1 (snd (handleOAuthCallback1 amb' v c s)) = SESSIONS1 v)"
proof -
  let ?key = "''oauth_token_'' @ template (field session ''provider'')"
  let ?ok = "JsonResp 200 (JObj [(''success'', JBool True),
                                 (''message'', JStr ''OAuth completed successfully'')])"
  let ?w' = "snd (handleOAuthCallback1 amb w (Some code) (Some state))"
  from assms(3,5) have live: "kv_get_live (clock_seconds amb) (SESSIONS1 w) (''session_'' @ state) = Some session"
    by (rule kv_get_live_Some)
  from handleOAuthCallback1_open [OF assms(1,2) live assms(4)] assms(6)
  have r: "fst (handleOAuthCallback1 amb w (Some code) (Some state)) = Returns ?ok" by simp
  have s: "SESSIONS1 ?w' = SESSIONS1 w" by (rule handleOAuthCallback1_sessions)
  with assms(3) have rec: "kv_get (SESSIONS1 ?w') (''session_'' @ state) = Some (session, expires)" by simp
  have again: "\<forall>(amb'::ambient) code'.
                 code' \<noteq> [] \<and> clock_seconds amb' < expires \<and> \<not> write_refused amb' ?key (JStr (''token_'' @ take 10 code')) \<longrightarrow>
                 (\<exists>w''. handleOAuthCallback1 amb' ?w' (Some code') (Some state) = (Returns ?ok, w'')
                     \<and> kv_get (SECRETS1 w'') ?key = Some (Text (''token_'' @ take 10 code'))
                     \<and> SESSIONS1 w'' = SESSIONS1 w)"
  proof (intro allI impI)
    fix amb' :: ambient and code' :: string
    assume h: "code' \<noteq> [] \<and> clock_seconds amb' < expires
               \<and> \<not> write_refused amb' ?key (JStr (''token_'' @ take 10 code'))"
    then have c: "code' \<noteq> []" and t: "clock_seconds amb' < expires"
      and a: "\<not> write_refused amb' ?key (JStr (''token_'' @ take 10 code'))" by simp_all
    from rec t have live': "kv_get_live (clock_seconds amb') (SESSIONS1 ?w') (''session_'' @ state) = Some session"
      by (rule kv_get_live_Some)
    from handleOAuthCallback1_open [OF c assms(2) live' assms(4)] a s
    show "\<exists>w''. handleOAuthCallback1 amb' ?w' (Some code') (Some state) = (Returns ?ok, w'')
                     \<and> kv_get (SECRETS1 w'') ?key = Some (Text (''token_'' @ take 10 code'))
                     \<and> SESSIONS1 w'' = SESSIONS1 w"
      by (simp add: kv_get_kv_put)
  qed
  have late: "\<forall>(amb'::ambient) code'.
                 code' \<noteq> [] \<and> expires \<le> clock_seconds amb' \<longrightarrow>
                 handleOAuthCallback1 amb' ?w' (Some code') (Some state)
                 = (Returns (JsonResp 403 (JObj [(''error'', JStr ''Session expired'')])), ?w')"
  proof (intro allI impI)
    fix amb' :: ambient and code' :: string
    assume h: "code' \<noteq> [] \<and> expires \<le> clock_seconds amb'"
    then have c: "code' \<noteq> []" and t: "expires \<le> clock_seconds amb'" by simp_all
    from rec t have "kv_get_live (clock_seconds amb') (SESSIONS1 ?w') (''session_'' @ state) = None"
      by (rule kv_get_live_expired)
    with c assms(2) show "handleOAuthCallback1 amb' ?w' (Some code') (Some state)
                 = (Returns (JsonResp 403 (JObj [(''error'', JStr ''Session expired'')])), ?w')"
      by (rule handleOAuthCallback1_no_record)
  qed
  have frame: "\<forall>(amb'::ambient) v c s. SESSIONS1 (snd (handleOAuthCallback1 amb' v c s)) = SESSIONS1 v"
    by (simp add: handleOAuthCallback1_sessions)
  have "handleOAuthCallback1 amb w (Some code) (Some state) = (Returns ?ok, ?w')"
    using r by (simp add: prod_eq_iff)
  with s rec again late frame show ?thesis by blast
qed

theorem complete_does_not_consume_state_witness:
  "''code-1'' \<noteq> [] \<and> ''st-1'' \<noteq> []
   \<and> kv_get (SESSIONS1 demo_oauth_world1) (''session_'' @ ''st-1'')
      = Some (JObj [(''provider'', JStr ''stripe''), (''created'', JStr ''2026-01-01T00:00:00.000Z''),
                    (''admin'', JStr ''Keli'')], 1767226200)
   \<and> JObj [(''provider'', JStr ''stripe''), (''created'', JStr ''2026-01-01T00:00:00.000Z''),
            (''admin'', JStr ''Keli'')] \<noteq> JNull
   \<and> clock_seconds demo_amb < 1767226200
   \<and> \<not> write_refused demo_amb ''oauth_token_stripe'' (JStr ''token_code-1'')
   \<and> fst (handleOAuthCallback1 demo_amb demo_oauth_world1 (Some ''code-1'') (Some ''st-1''))
      = Returns (JsonResp 200 (JObj [(''success'', JBool True),
                                     (''message'', JStr ''OAuth completed successfully'')]))
   \<and> SESSIONS1 (snd (handleOAuthCallback1 demo_amb demo_oauth_world1 (Some ''code-1'') (Some ''st-1'')))
      = SESSIONS1 demo_oauth_world1
   \<and> fst (handleOAuthCallback1 demo_amb
            (snd (handleOAuthCallback1 demo_amb demo_oauth_world1 (Some ''code-1'') (Some ''st-1'')))
            (Some ''another-code'') (Some ''st-1''))
      = Returns (JsonResp 200 (JObj [(''success'', JBool True),
                                     (''message'', JStr ''OAuth completed successfully'')]))
   \<and> fst (handleOAuthCallback1 demo_amb_later
            (snd (handleOAuthCallback1 demo_amb demo_oauth_world1 (Some ''code-1'') (Some ''st-1'')))
            (Some ''another-code'') (Some ''st-1''))
      = Returns (JsonResp 403 (JObj [(''error'', JStr ''Session expired'')]))"
proof -
  let ?session = "JObj [(''provider'', JStr ''stripe''), (''created'', JStr ''2026-01-01T00:00:00.000Z''),
                        (''admin'', JStr ''Keli'')]"
  let ?ok = "JsonResp 200 (JObj [(''success'', JBool True),
                                 (''message'', JStr ''OAuth completed successfully'')])"
  have a: "''code-1'' \<noteq> []" and b: "''st-1'' \<noteq> []" by simp_all
  have c: "kv_get (SESSIONS1 demo_oauth_world1) (''session_'' @ ''st-1'') = Some (?session, 1767226200)"
    by (simp add: demo_oauth_world1_def demo_world1_def kv_get_def)
  have d: "?session \<noteq> JNull" by simp
  have e: "clock_seconds demo_amb < 1767226200" by (simp add: demo_amb_def)
  have p: "template (field ?session ''provider'') = ''stripe''" by (simp add: template_def field_def)
  have f: "\<not> write_refused demo_amb (''oauth_token_'' @ template (field ?session ''provider''))
             (JStr (''token_'' @ take 10 ''code-1''))"
    by (simp add: demo_amb_def)
  have f': "\<not> write_refused demo_amb ''oauth_token_stripe'' (JStr ''token_code-1'')"
    by (simp add: demo_amb_def)
  from complete_does_not_consume_state [OF a b c d e f] obtain w' where
    1: "handleOAuthCallback1 demo_amb demo_oauth_world1 (Some ''code-1'') (Some ''st-1'') = (Returns ?ok, w')"
    and 2: "SESSIONS1 w' = SESSIONS1 demo_oauth_world1"
    and 3: "\<forall>(amb'::ambient) code'.
                 code' \<noteq> [] \<and> clock_seconds amb' < 1767226200
                 \<and> \<not> write_refused amb' (''oauth_token_'' @ template (field ?session ''provider''))
                        (JStr (''token_'' @ take 10 code')) \<longrightarrow>
                 (\<exists>w''. handleOAuthCallback1 amb' w' (Some code') (Some ''st-1'') = (Returns ?ok, w'')
                     \<and> kv_get (SECRETS1 w'') (''oauth_token_'' @ template (field ?session ''provider''))
                        = Some (Text (''token_'' @ take 10 code'))
                     \<and> SESSIONS1 w'' = SESSIONS1 demo_oauth_world1)"
    and 4: "\<forall>(amb'::ambient) code'.
                 code' \<noteq> [] \<and> 1767226200 \<le> clock_seconds amb' \<longrightarrow>
                 handleOAuthCallback1 amb' w' (Some code') (Some ''st-1'')
                 = (Returns (JsonResp 403 (JObj [(''error'', JStr ''Session expired'')])), w')"
    by (elim exE conjE) (rule that)
  have g: "''another-code'' \<noteq> [] \<and> clock_seconds demo_amb < 1767226200
           \<and> \<not> write_refused demo_amb (''oauth_token_'' @ template (field ?session ''provider''))
                  (JStr (''token_'' @ take 10 ''another-code''))"
    by (simp add: demo_amb_def)
  from 3 [rule_format, OF g] obtain w'' where
    5: "handleOAuthCallback1 demo_amb w' (Some ''another-code'') (Some ''st-1'') = (Returns ?ok, w'')"
    by (elim exE conjE) (rule that)
  have h: "''another-code'' \<noteq> [] \<and> 1767226200 \<le> clock_seconds demo_amb_later"
    by (simp add: demo_amb_later_def)
  note 6 = 4 [rule_format, OF h]
  have w': "snd (handleOAuthCallback1 demo_amb demo_oauth_world1 (Some ''code-1'') (Some ''st-1'')) = w'"
    using 1 by simp
  from a b c d e f' 1 2 5 6 show ?thesis unfolding w' by (intro conjI) simp_all
qed

section \<open>The token a callback stores\<close>

text \<open>
  C5, as the claim states it, fails: \<^verbatim>\<open>handleOAuthCallback\<close> calls no provider and has no
  returned token material to persist (lines 206-208 are a placeholder). What it stores
  under the provider's key is made of the code it was called with: \<^verbatim>\<open>token_\<close> and the first
  ten characters of the code.
\<close>

theorem complete_placeholder_token_counterexample:
  "handleOAuthCallback1 demo_amb demo_oauth_world1 (Some ''abcdefghijklmnop'') (Some ''st-1'')
     = (Returns (JsonResp 200 (JObj [(''success'', JBool True),
                                     (''message'', JStr ''OAuth completed successfully'')])),
        demo_oauth_world1\<lparr>SECRETS1 := [(''oauth_token_stripe'', Text ''token_abcdefghij'')],
                          AUDIT1 := [(''audit_0f8fad5b-d9cb-469f-a165-70867728950e'',
                                      JObj [(''admin'', JStr ''Keli''), (''action'', JStr ''oauth_complete''),
                                            (''details'', JStr ''OAuth completed for stripe''),
                                            (''timestamp'', JStr ''2026-01-01T00:00:00.000Z'')])]\<rparr>)"
  by (simp add: handleOAuthCallback1_def demo_oauth_world1_def demo_world1_def demo_amb_def
        kv_get_live_def kv_get_def truthy_str_def field_def template_def Let_def logAudit1_def)

text \<open>
  C5, amended. When the callback finds a state record that has not expired, it makes no
  exchange with the provider. When the store accepts the write, it puts the text
  \<^verbatim>\<open>token_\<close> followed by the first ten characters of the code under
  \<^verbatim>\<open>oauth_token_<provider>\<close>, in place of any earlier token of that provider, changes no
  other secret, and adds one audit entry, which names the provider and is built from the
  provider's name and the clock alone, without the code or the token. When the store
  refuses the write, the handler throws and nothing is stored.
\<close>

theorem complete_stores_placeholder_token:
  assumes "code \<noteq> []" and "state \<noteq> []"
    and "kv_get (SESSIONS1 w) (''session_'' @ state) = Some (session, expires)"
    and "session \<noteq> JNull" and "clock_seconds amb < expires"
  shows "(\<not> write_refused amb (''oauth_token_'' @ template (field session ''provider''))
             (JStr (''token_'' @ take 10 code)) \<longrightarrow>
            handleOAuthCallback1 amb w (Some code) (Some state)
            = (Returns (JsonResp 200 (JObj [(''success'', JBool True),
                                            (''message'', JStr ''OAuth completed successfully'')])),
               w\<lparr>SECRETS1 := kv_put (''oauth_token_'' @ template (field session ''provider''))
                                (Text (''token_'' @ take 10 code)) (SECRETS1 w),
                 AUDIT1 := kv_put (''audit_'' @ random_uuid amb 0)
                             (JObj [(''admin'', JStr ''Keli''), (''action'', JStr ''oauth_complete''),
                                    (''details'', JStr (''OAuth completed for ''
                                                       @ template (field session ''provider''))),
                                    (''timestamp'', JStr (clock_iso amb 0))])
                             (AUDIT1 w)\<rparr>)
            \<and> kv_get (SECRETS1 (snd (handleOAuthCallback1 amb w (Some code) (Some state))))
                 (''oauth_token_'' @ template (field session ''provider''))
               = Some (Text (''token_'' @ take 10 code))
            \<and> (\<forall>k. k \<noteq> ''oauth_token_'' @ template (field session ''provider'') \<longrightarrow>
                  kv_get (SECRETS1 (snd (handleOAuthCallback1 amb w (Some code) (Some state)))) k
                  = kv_get (SECRETS1 w) k))
       \<and> (write_refused amb (''oauth_token_'' @ template (field session ''provider''))
             (JStr (''token_'' @ take 10 code)) \<longrightarrow>
            handleOAuthCallback1 amb w (Some code) (Some state) = (Throws WriteFailed, w))"
proof -
  from assms(3,5) have live: "kv_get_live (clock_seconds amb) (SESSIONS1 w) (''session_'' @ state) = Some session"
    by (rule kv_get_live_Some)
  note o = handleOAuthCallback1_open [OF assms(1,2) live assms(4)]
  show ?thesis unfolding o by (simp add: kv_get_kv_put)
qed

theorem complete_stores_placeholder_token_witness:
  "''code-1'' \<noteq> [] \<and> ''st-1'' \<noteq> []
   \<and> kv_get (SESSIONS1 demo_oauth_world1) (''session_'' @ ''st-1'')
      = Some (JObj [(''provider'', JStr ''stripe''), (''created'', JStr ''2026-01-01T00:00:00.000Z''),
                    (''admin'', JStr ''Keli'')], 1767226200)
   \<and> JObj [(''provider'', JStr ''stripe''), (''created'', JStr ''2026-01-01T00:00:00.000Z''),
            (''admin'', JStr ''Keli'')] \<noteq> JNull
   \<and> clock_seconds demo_amb < 1767226200
   \<and> \<not> write_refused demo_amb ''oauth_token_stripe'' (JStr ''token_code-1'')
   \<and> kv_get (SECRETS1 (snd (handleOAuthCallback1 demo_amb demo_oauth_world1 (Some ''code-1'') (Some ''st-1''))))
        ''oauth_token_stripe'' = Some (Text ''token_code-1'')
   \<and> write_refused (demo_amb\<lparr>write_refused := (\<lambda>k v. True)\<rparr>) ''oauth_token_stripe'' (JStr ''token_code-1'')
   \<and> handleOAuthCallback1 (demo_amb\<lparr>write_refused := (\<lambda>k v. True)\<rparr>) demo_oauth_world1
        (Some ''code-1'') (Some ''st-1'')
      = (Throws WriteFailed, demo_oauth_world1)"
proof -
  let ?session = "JObj [(''provider'', JStr ''stripe''), (''created'', JStr ''2026-01-01T00:00:00.000Z''),
                        (''admin'', JStr ''Keli'')]"
  let ?no = "demo_amb\<lparr>write_refused := (\<lambda>k v. True)\<rparr>"
  have a: "''code-1'' \<noteq> []" and b: "''st-1'' \<noteq> []" by simp_all
  have c: "kv_get (SESSIONS1 demo_oauth_world1) (''session_'' @ ''st-1'') = Some (?session, 1767226200)"
    by (simp add: demo_oauth_world1_def demo_world1_def kv_get_def)
  have d: "?session \<noteq> JNull" by simp
  have e: "clock_seconds demo_amb < 1767226200" by (simp add: demo_amb_def)
  have e': "clock_seconds ?no < 1767226200" by (simp add: demo_amb_def)
  have p: "''oauth_token_'' @ template (field ?session ''provider'') = ''oauth_token_stripe''"
    and t: "''token_'' @ take 10 ''code-1'' = ''token_code-1''"
    by (simp_all add: template_def field_def)
  have f: "\<not> write_refused demo_amb ''oauth_token_stripe'' (JStr ''token_code-1'')"
    by (simp add: demo_amb_def)
  have g: "write_refused ?no ''oauth_token_stripe'' (JStr ''token_code-1'')" by simp
  note T1 = complete_stores_placeholder_token [OF a b c d e, unfolded p t]
  note T2 = complete_stores_placeholder_token [OF a b c d e', unfolded p t]
  from T1 [THEN conjunct1, THEN mp, OF f, THEN conjunct2, THEN conjunct1]
  have 1: "kv_get (SECRETS1 (snd (handleOAuthCallback1 demo_amb demo_oauth_world1 (Some ''code-1'') (Some ''st-1''))))
        ''oauth_token_stripe'' = Some (Text ''token_code-1'')" .
  from T2 [THEN conjunct2, THEN mp, OF g]
  have 2: "handleOAuthCallback1 ?no demo_oauth_world1 (Some ''code-1'') (Some ''st-1'')
      = (Throws WriteFailed, demo_oauth_world1)" .
  from a b c d e f 1 g 2 show ?thesis by (intro conjI)
qed

section \<open>Starting the handshake\<close>

text \<open>
  C6, as the claim states it, fails: \<^verbatim>\<open>handleOAuthInit\<close> reads no configuration and never
  answers 400 for a provider that has none, and it answers with a JSON document, not a
  redirect. For the provider \<^verbatim>\<open>github\<close> it answers 200 with \<^verbatim>\<open>#\<close> as the URL, which does
  not contain the state token.
\<close>

theorem initiate_unconfigured_provider_counterexample:
  "handleOAuthInit1 demo_amb demo_world1 (Some ''github'')
     = (Returns (JsonResp 200 (JObj [(''auth_url'', JStr ''#''),
                                     (''session_id'', JStr ''0f8fad5b-d9cb-469f-a165-70867728950e'')])),
        demo_world1\<lparr>SESSIONS1 := [(''session_0f8fad5b-d9cb-469f-a165-70867728950e'',
                                     (JObj [(''provider'', JStr ''github''),
                                            (''created'', JStr ''2026-01-01T00:00:00.000Z''),
                                            (''admin'', JStr ''Keli'')], 1767226200))],
                     AUDIT1 := [(''audit_0f8fad5b-d9cb-469f-a165-70867728950e'',
                                 JObj [(''admin'', JStr ''Keli''), (''action'', JStr ''oauth_init''),
                                       (''details'', JStr ''OAuth initiated for github''),
                                       (''timestamp'', JStr ''2026-01-01T00:00:00.000Z'')])]\<rparr>)"
  by (simp add: handleOAuthInit1_def demo_world1_def demo_amb_def truthy_str_def Let_def
        logAudit1_def auth_url1_def prototype_functions_def)

text \<open>
  C6, amended. For every non-empty provider, \<^verbatim>\<open>handleOAuthInit\<close> reads no configuration and
  is never refused. It takes the state token the platform's random source gives, stores
  \<^verbatim>\<open>{provider, created, admin}\<close> under that token for 600 seconds, adds an audit entry and
  answers 200 with the token as \<^verbatim>\<open>session_id\<close>. The \<^verbatim>\<open>auth_url\<close> of the answer is, for
  \<^verbatim>\<open>stripe\<close>, \<^verbatim>\<open>protonmail\<close> and \<^verbatim>\<open>youtube\<close>, the built-in URL of the provider, which ends in
  \<^verbatim>\<open>state=\<close> and that token; for a provider that is none of these and not a property name of
  \<^verbatim>\<open>Object.prototype\<close> it is \<^verbatim>\<open>#\<close>.
\<close>

theorem initiate_issues_state_without_configuration:
  assumes "provider \<noteq> []"
  shows
   "handleOAuthInit1 amb w (Some provider)
      = (Returns (JsonResp 200
           (JObj ((case auth_url1 provider (random_uuid amb 0) of
                     None \<Rightarrow> [] | Some u \<Rightarrow> [(''auth_url'', u)])
                  @ [(''session_id'', JStr (random_uuid amb 0))]))),
         w\<lparr>SESSIONS1 := kv_put (''session_'' @ random_uuid amb 0)
                           (JObj [(''provider'', JStr provider), (''created'', JStr (clock_iso amb 0)),
                                  (''admin'', JStr ''Keli'')],
                            clock_seconds amb + 600)
                           (SESSIONS1 w),
           AUDIT1 := kv_put (''audit_'' @ random_uuid amb 1)
                       (JObj [(''admin'', JStr ''Keli''), (''action'', JStr ''oauth_init''),
                              (''details'', JStr (''OAuth initiated for '' @ provider)),
                              (''timestamp'', JStr (clock_iso amb 1))])
                       (AUDIT1 w)\<rparr>)
    \<and> kv_get (SESSIONS1 (snd (handleOAuthInit1 amb w (Some provider)))) (''session_'' @ random_uuid amb 0)
       = Some (JObj [(''provider'', JStr provider), (''created'', JStr (clock_iso amb 0)),
                     (''admin'', JStr ''Keli'')],
               clock_seconds amb + 600)
    \<and> (provider \<in> {''stripe'', ''protonmail'', ''youtube''} \<longrightarrow>
         (\<exists>prefix. auth_url1 provider (random_uuid amb 0)
                     = Some (JStr (prefix @ ''state='' @ random_uuid amb 0))))
    \<and> (provider \<notin> {''stripe'', ''protonmail'', ''youtube'', ''__proto__''} \<union> set prototype_functions \<longrightarrow>
         auth_url1 provider (random_uuid amb 0) = Some (JStr ''#''))"
proof (intro conjI impI)
  show r: "handleOAuthInit1 amb w (Some provider)
      = (Returns (JsonResp 200
           (JObj ((case auth_url1 provider (random_uuid amb 0) of
                     None \<Rightarrow> [] | Some u \<Rightarrow> [(''auth_url'', u)])
                  @ [(''session_id'', JStr (random_uuid amb 0))]))),
         w\<lparr>SESSIONS1 := kv_put (''session_'' @ random_uuid amb 0)
                           (JObj [(''provider'', JStr provider), (''created'', JStr (clock_iso amb 0)),
                                  (''admin'', JStr ''Keli'')],
                            clock_seconds amb + 600)
                           (SESSIONS1 w),
           AUDIT1 := kv_put (''audit_'' @ random_uuid amb 1)
                       (JObj [(''admin'', JStr ''Keli''), (''action'', JStr ''oauth_init''),
                              (''details'', JStr (''OAuth initiated for '' @ provider)),
                              (''timestamp'', JStr (clock_iso amb 1))])
                       (AUDIT1 w)\<rparr>)"
    using assms by (simp add: handleOAuthInit1_def truthy_str_def Let_def logAudit1_def)
  show "kv_get (SESSIONS1 (snd (handleOAuthInit1 amb w (Some provider)))) (''session_'' @ random_uuid amb 0)
       = Some (JObj [(''provider'', JStr provider), (''created'', JStr (clock_iso amb 0)),
                     (''admin'', JStr ''Keli'')],
               clock_seconds amb + 600)"
    unfolding r by (simp add: kv_get_kv_put)
next
  assume "provider \<in> {''stripe'', ''protonmail'', ''youtube''}"
  then consider "provider = ''stripe''" | "provider = ''protonmail''" | "provider = ''youtube''" by blast
  then show "\<exists>prefix. auth_url1 provider (random_uuid amb 0)
                    = Some (JStr (prefix @ ''state='' @ random_uuid amb 0))"
  proof cases
    case 1
    have "auth_url1 provider (random_uuid amb 0)
          = Some (JStr (''https://connect.stripe.com/oauth/authorize?response_type=code&client_id=CLIENT_ID&scope=read_write&''
                        @ ''state='' @ random_uuid amb 0))"
      using 1 by (simp add: auth_url1_def)
    then show ?thesis by blast
  next
    case 2
    have "auth_url1 provider (random_uuid amb 0)
          = Some (JStr (''https://account.proton.me/authorize?client_id=CLIENT_ID&''
                        @ ''state='' @ random_uuid amb 0))"
      using 2 by (simp add: auth_url1_def)
    then show ?thesis by blast
  next
    case 3
    have "auth_url1 provider (random_uuid amb 0)
          = Some (JStr (''https://accounts.google.com/o/oauth2/v2/auth?client_id=CLIENT_ID&redirect_uri=REDIRECT_URI&response_type=code&scope=https://www.googleapis.com/auth/youtube.readonly&''
                        @ ''state='' @ random_uuid amb 0))"
      using 3 by (simp add: auth_url1_def)
    then show ?thesis by blast
  qed
next
  assume "provider \<notin> {''stripe'', ''protonmail'', ''youtube'', ''__proto__''} \<union> set prototype_functions"
  then show "auth_url1 provider (random_uuid amb 0) = Some (JStr ''#'')"
    by (simp add: auth_url1_def)
qed

theorem initiate_issues_state_without_configuration_witness:
  "''stripe'' \<noteq> [] \<and> ''stripe'' \<in> {''stripe'', ''protonmail'', ''youtube''}
   \<and> fst (handleOAuthInit1 demo_amb demo_world1 (Some ''stripe''))
      = Returns (JsonResp 200
          (JObj [(''auth_url'', JStr ''https://connect.stripe.com/oauth/authorize?response_type=code&client_id=CLIENT_ID&scope=read_write&state=0f8fad5b-d9cb-469f-a165-70867728950e''),
                 (''session_id'', JStr ''0f8fad5b-d9cb-469f-a165-70867728950e'')]))
   \<and> kv_get (SESSIONS1 (snd (handleOAuthInit1 demo_amb demo_world1 (Some ''stripe''))))
        ''session_0f8fad5b-d9cb-469f-a165-70867728950e''
      = Some (JObj [(''provider'', JStr ''stripe''), (''created'', JStr ''2026-01-01T00:00:00.000Z''),
                    (''admin'', JStr ''Keli'')], 1767226200)
   \<and> (\<exists>prefix. auth_url1 ''stripe'' (random_uuid demo_amb 0)
                  = Some (JStr (prefix @ ''state='' @ random_uuid demo_amb 0)))
   \<and> ''github'' \<noteq> []
   \<and> ''github'' \<notin> {''stripe'', ''protonmail'', ''youtube'', ''__proto__''} \<union> set prototype_functions
   \<and> auth_url1 ''github'' (random_uuid demo_amb 0) = Some (JStr ''#'')"
proof -
  have a: "''stripe'' \<noteq> []" by simp
  have b: "''stripe'' \<in> {''stripe'', ''protonmail'', ''youtube''}" by simp
  have c: "''github'' \<noteq> []" by simp
  have d: "''github'' \<notin> {''stripe'', ''protonmail'', ''youtube'', ''__proto__''} \<union> set prototype_functions"
    by (simp add: prototype_functions_def)
  note T = initiate_issues_state_without_configuration [OF a, where amb = demo_amb and w = demo_world1]
  note U = initiate_issues_state_without_configuration [OF c, where amb = demo_amb and w = demo_world1]
  from T [THEN conjunct1]
  have 1: "fst (handleOAuthInit1 demo_amb demo_world1 (Some ''stripe''))
      = Returns (JsonResp 200
          (JObj [(''auth_url'', JStr ''https://connect.stripe.com/oauth/authorize?response_type=code&client_id=CLIENT_ID&scope=read_write&state=0f8fad5b-d9cb-469f-a165-70867728950e''),
                 (''session_id'', JStr ''0f8fad5b-d9cb-469f-a165-70867728950e'')]))"
    by (simp add: auth_url1_def demo_amb_def)
  from T [THEN conjunct2, THEN conjunct1]
  have 2: "kv_get (SESSIONS1 (snd (handleOAuthInit1 demo_amb demo_world1 (Some ''stripe''))))
        ''session_0f8fad5b-d9cb-469f-a165-70867728950e''
      = Some (JObj [(''provider'', JStr ''stripe''), (''created'', JStr ''2026-01-01T00:00:00.000Z''),
                    (''admin'', JStr ''Keli'')], 1767226200)"
    by (simp add: demo_amb_def)
  note 3 = T [THEN conjunct2, THEN conjunct2, THEN conjunct1, THEN mp, OF b]
  note 4 = U [THEN conjunct2, THEN conjunct2, THEN conjunct2, THEN mp, OF d]
  from a b 1 2 3 c d 4 show ?thesis by (intro conjI)
qed

section \<open>The administrative identity of audit entries\<close>

text \<open>
  C3. \<^verbatim>\<open>handleAudit\<close> stamps the administrative identity on every payload that is a JSON
  object (\<open>audit_entry1_object_admin\<close>). For a payload that is a JSON array it assigns
  \<^verbatim>\<open>entry.admin\<close> to the array, and \<^verbatim>\<open>JSON.stringify\<close> does not write a named property of
  an array: the entry is stored as the array it came as, without an \<^verbatim>\<open>admin\<close> field.
\<close>

theorem handleAudit1_array_payload_has_no_admin:
  "handleAudit1 amb w (Some (JArr xs))
     = (Returns (JsonResp 200 (JObj [(''success'', JBool True), (''audit_id'', JStr (random_uuid amb 0))])),
        w\<lparr>AUDIT1 := kv_put (''audit_'' @ random_uuid amb 0) (JArr xs) (AUDIT1 w)\<rparr>)
   \<and> kv_get (AUDIT1 (snd (handleAudit1 amb w (Some (JArr xs))))) (''audit_'' @ random_uuid amb 0) = Some (JArr xs)
   \<and> field (JArr xs) ''admin'' = None"
  by (simp add: handleAudit1_def audit_entry1_def Let_def field_def or_else_def truthy_opt_def kv_get_kv_put)

section \<open>Listing the audit log\<close>




section \<open>Delivery after a checkout\<close>




end
